theory Spec2Isabelle
  imports Complex_Main
begin

section \<open>HTTP outcomes of a gin handler\<close>

text \<open>
  A gin middleware either answers the request itself (\<open>c.JSON(status, ...)\<close> followed by
  \<open>c.Abort()\<close>) or hands it on (\<open>c.Next()\<close>). The model keeps the numeric status
  and the text of the \<open>"error"\<close> field of the JSON body; \<open>Next\<close> carries what the
  middleware stored in the request context.
\<close>

datatype 'a outcome = Next 'a | Abort nat string

definition StatusBadRequest :: nat where "StatusBadRequest = 400"
definition StatusUnauthorized :: nat where "StatusUnauthorized = 401"
definition StatusForbidden :: nat where "StatusForbidden = 403"
definition StatusNotFound :: nat where "StatusNotFound = 404"
definition StatusConflict :: nat where "StatusConflict = 409"
definition StatusTooManyRequests :: nat where "StatusTooManyRequests = 429"
definition StatusInternalServerError :: nat where "StatusInternalServerError = 500"
definition StatusOK :: nat where "StatusOK = 200"
definition StatusCreated :: nat where "StatusCreated = 201"

lemmas http_status_defs =
  StatusBadRequest_def StatusUnauthorized_def StatusForbidden_def StatusNotFound_def
  StatusConflict_def StatusTooManyRequests_def StatusInternalServerError_def
  StatusOK_def StatusCreated_def

section \<open>Request throttle: \<open>RateLimitMiddleware\<close> (internal/middleware)\<close>

text \<open>
  Instants and durations are Go's: a count of nanoseconds. \<open>Time.Sub\<close> saturates at the
  bounds of \<open>int64\<close>, which is written out. The two maps of the closure are the state
  the handler reads and writes; a key that a Go map does not hold reads as the zero
  value, here \<open>0\<close> for \<open>requests\<close>.

  The counter is a Go \<open>int\<close>. The only arithmetic on it is the increment, which is
  reached only when the counter is below \<open>limit\<close>, itself an \<open>int\<close>; the increment
  therefore never wraps and the counter is modelled as an unbounded integer.
\<close>

type_synonym Time = int
type_synonym Duration = int

definition maxDuration :: Duration where "maxDuration = 2 ^ 63 - 1"
definition minDuration :: Duration where "minDuration = - (2 ^ 63)"

definition Second :: Duration where "Second = 1000000000"

definition time_Sub :: "Time \<Rightarrow> Time \<Rightarrow> Duration" where
  "time_Sub t u =
     (let d = t - u in
      if maxDuration < d then maxDuration
      else if d < minDuration then minDuration
      else d)"

record limiter =
  requests :: "string \<rightharpoonup> int"
  lastReset :: "string \<rightharpoonup> Time"

definition new_limiter :: limiter where
  "new_limiter = \<lparr>requests = Map.empty, lastReset = Map.empty\<rparr>"

definition count_of :: "limiter \<Rightarrow> string \<Rightarrow> int" where
  "count_of st ip = (case requests st ip of None \<Rightarrow> 0 | Some c \<Rightarrow> c)"

text \<open>The first block of the handler: restart the window when it has passed, or open it.\<close>

definition reset_window :: "Duration \<Rightarrow> limiter \<Rightarrow> string \<Rightarrow> Time \<Rightarrow> limiter" where
  "reset_window window st ip now =
     (case lastReset st ip of
        Some lastResetTime \<Rightarrow>
          if window < time_Sub now lastResetTime
          then st\<lparr>requests := (requests st)(ip \<mapsto> 0), lastReset := (lastReset st)(ip \<mapsto> now)\<rparr>
          else st
      | None \<Rightarrow> st\<lparr>lastReset := (lastReset st)(ip \<mapsto> now)\<rparr>)"

definition RateLimitMiddleware ::
  "int \<Rightarrow> Duration \<Rightarrow> limiter \<Rightarrow> string \<Rightarrow> Time \<Rightarrow> limiter \<times> unit outcome" where
  "RateLimitMiddleware limit window st ip now =
     (let st1 = reset_window window st ip now in
      if limit \<le> count_of st1 ip
      then (st1, Abort StatusTooManyRequests ''Rate limit exceeded'')
      else (st1\<lparr>requests := (requests st1)(ip \<mapsto> count_of st1 ip + 1)\<rparr>, Next ()))"

text \<open>
  A sequential run: the requests, each a client key and its arrival instant, are handled
  one after the other. The result is the final state and the outcome of every request.
\<close>

fun serve ::
  "int \<Rightarrow> Duration \<Rightarrow> limiter \<Rightarrow> (string \<times> Time) list \<Rightarrow> limiter \<times> unit outcome list" where
  "serve limit window st [] = (st, [])"
| "serve limit window st ((ip, now) # rs) =
     (let (st1, r) = RateLimitMiddleware limit window st ip now;
          (st2, out) = serve limit window st1 rs
      in (st2, r # out))"

text \<open>The counter entry of a key: its \<open>{count, windowStart}\<close> pair, each as the map holds it.\<close>

definition entry :: "limiter \<Rightarrow> string \<Rightarrow> int option \<times> Time option" where
  "entry st ip = (requests st ip, lastReset st ip)"

text \<open>
  The requests of one client key within a run, and the outcomes they received.
\<close>

definition for_key :: "string \<Rightarrow> (string \<times> Time) list \<Rightarrow> (string \<times> Time) list" where
  "for_key k reqs = filter (\<lambda>r. fst r = k) reqs"

definition outcomes_for ::
  "string \<Rightarrow> (string \<times> Time) list \<Rightarrow> unit outcome list \<Rightarrow> unit outcome list" where
  "outcomes_for k reqs outs = map snd (filter (\<lambda>p. fst (fst p) = k) (zip reqs outs))"

section \<open>Users and their store (internal/models, internal/repositories)\<close>

text \<open>
  \<open>models.Role\<close> is a string type with two named constants; the handlers convert
  request strings to it, so a role is modelled as the string it is.

  \<open>models.BaseModel\<close>, which \<open>User\<close> embeds, is not among the sources. The services
  and handlers document \<open>Delete\<close> as a soft delete, GORM's behaviour for a model with
  a \<open>DeletedAt\<close> column: a deleted row stays in the table with its deletion instant
  and is invisible to every later query. The table is the list of its rows in
  insertion order.
\<close>

definition RoleAdmin :: string where "RoleAdmin = ''admin''"
definition RoleUser :: string where "RoleUser = ''user''"

record User =
  ID :: nat
  Username :: string
  Email :: string
  FullName :: string
  Password :: string
  Role :: string
  DeletedAt :: "Time option"

text \<open>
  Go errors: \<open>gorm.ErrRecordNotFound\<close>, compared by identity (\<open>errors.Is\<close>), and every
  other error by its message (\<open>errors.New\<close>, or what the database driver reports).
\<close>

datatype err = ErrRecordNotFound | ErrorsNew string

fun err_Error :: "err \<Rightarrow> string" where
  "err_Error ErrRecordNotFound = ''record not found''"
| "err_Error (ErrorsNew msg) = msg"

fun is_prefix :: "'a list \<Rightarrow> 'a list \<Rightarrow> bool" where
  "is_prefix [] s = True"
| "is_prefix (p # ps) [] = False"
| "is_prefix (p # ps) (c # cs) = (p = c \<and> is_prefix ps cs)"

fun Contains :: "string \<Rightarrow> string \<Rightarrow> bool" where
  "Contains [] substr = (substr = [])"
| "Contains (c # cs) substr = (is_prefix substr (c # cs) \<or> Contains cs substr)"

definition visible :: "User list \<Rightarrow> User list" where
  "visible db = filter (\<lambda>u. DeletedAt u = None) db"

definition UserRepository_GetByID :: "User list \<Rightarrow> nat \<Rightarrow> err + User" where
  "UserRepository_GetByID db uid =
     (case find (\<lambda>u. ID u = uid) (visible db) of
        None \<Rightarrow> Inl ErrRecordNotFound
      | Some user \<Rightarrow> Inr user)"

text \<open>
  \<open>User.BeforeSave\<close> replaces a non-empty password by its bcrypt hash. bcrypt is an
  external package with a random salt: it is a parameter, and may fail.
\<close>

definition BeforeSave :: "(string \<Rightarrow> err + string) \<Rightarrow> User \<Rightarrow> err + User" where
  "BeforeSave bcrypt u =
     (if Password u \<noteq> ''''
      then (case bcrypt (Password u) of
              Inl e \<Rightarrow> Inl e
            | Inr hashedPassword \<Rightarrow> Inr (u\<lparr>Password := hashedPassword\<rparr>))
      else Inr u)"

definition next_ID :: "User list \<Rightarrow> nat" where
  "next_ID db = Suc (fold max (map ID db) 0)"

text \<open>
  \<open>UserRepository.Create\<close>: the two counting queries see the visible rows; the insert
  runs the hook, takes the next primary key, and fails on the unique indexes of
  \<open>username\<close> and \<open>email\<close>, which cover deleted rows too.
\<close>

definition UserRepository_Create ::
  "(string \<Rightarrow> err + string) \<Rightarrow> User list \<Rightarrow> User \<Rightarrow> User list \<times> err option" where
  "UserRepository_Create bcrypt db user =
     (if 0 < length (filter (\<lambda>u. Username u = Username user) (visible db))
      then (db, Some (ErrorsNew ''username already exists''))
      else if 0 < length (filter (\<lambda>u. Email u = Email user) (visible db))
      then (db, Some (ErrorsNew ''email already exists''))
      else (case BeforeSave bcrypt user of
              Inl e \<Rightarrow> (db, Some e)
            | Inr u \<Rightarrow>
                if list_ex (\<lambda>r. Username r = Username u \<or> Email r = Email u) db
                then (db, Some (ErrorsNew ''duplicate key value violates unique constraint''))
                else (db @ [u\<lparr>ID := next_ID db\<rparr>], None)))"

fun set_column :: "string \<times> string \<Rightarrow> User \<Rightarrow> User" where
  "set_column (col, v) u =
     (if col = ''role'' then u\<lparr>Role := v\<rparr>
      else if col = ''username'' then u\<lparr>Username := v\<rparr>
      else if col = ''email'' then u\<lparr>Email := v\<rparr>
      else if col = ''full_name'' then u\<lparr>FullName := v\<rparr>
      else u)"

definition UserRepository_UpdateFields ::
  "User list \<Rightarrow> nat \<Rightarrow> (string \<times> string) list \<Rightarrow> User list \<times> err option" where
  "UserRepository_UpdateFields db userID cols =
     (map (\<lambda>u. if ID u = userID \<and> DeletedAt u = None then fold set_column cols u else u) db,
      None)"

definition UserRepository_Delete :: "User list \<Rightarrow> Time \<Rightarrow> nat \<Rightarrow> User list \<times> err option" where
  "UserRepository_Delete db now uid =
     (map (\<lambda>u. if ID u = uid \<and> DeletedAt u = None then u\<lparr>DeletedAt := Some now\<rparr> else u) db,
      None)"

section \<open>\<open>AuthService\<close>: the operations on users (internal/services)\<close>

definition AuthService_GetCurrentUser :: "User list \<Rightarrow> nat \<Rightarrow> err + User" where
  "AuthService_GetCurrentUser db userID = UserRepository_GetByID db userID"

definition AuthService_UpdateUserRole ::
  "User list \<Rightarrow> nat \<Rightarrow> string \<Rightarrow> User list \<times> err option" where
  "AuthService_UpdateUserRole db userID role =
     (case UserRepository_GetByID db userID of
        Inl e \<Rightarrow> (db, Some e)
      | Inr user \<Rightarrow> UserRepository_UpdateFields db (ID user) [(''role'', role)])"

definition AuthService_DeleteUser :: "User list \<Rightarrow> Time \<Rightarrow> nat \<Rightarrow> User list \<times> err option" where
  "AuthService_DeleteUser db now userID =
     (case UserRepository_GetByID db userID of
        Inl e \<Rightarrow> (db, Some e)
      | Inr user \<Rightarrow>
          if Role user = RoleAdmin
          then (db, Some (ErrorsNew ''cannot delete admin user''))
          else UserRepository_Delete db now userID)"

section \<open>\<open>AuthHandler\<close>: registration, role update, deletion (internal/handlers)\<close>

text \<open>
  \<open>strconv.ParseUint(s, 10, 32)\<close>: a non-empty string of decimal digits, no sign, whose
  value fits 32 bits.
\<close>

definition digit_of :: "char \<Rightarrow> nat option" where
  "digit_of c =
     (let n = (of_char c :: nat) in if 48 \<le> n \<and> n \<le> 57 then Some (n - 48) else None)"

fun digits_value :: "nat \<Rightarrow> string \<Rightarrow> nat option" where
  "digits_value acc [] = Some acc"
| "digits_value acc (c # cs) =
     (case digit_of c of None \<Rightarrow> None | Some d \<Rightarrow> digits_value (10 * acc + d) cs)"

definition ParseUint32 :: "string \<Rightarrow> nat option" where
  "ParseUint32 s =
     (if s = [] then None
      else (case digits_value 0 s of
              None \<Rightarrow> None
            | Some n \<Rightarrow> if n < 2 ^ 32 then Some n else None))"

text \<open>
  What \<open>AuthMiddleware\<close> stores in the request context, and the answer of a handler:
  the status and the text of the body's \<open>error\<close> or \<open>message\<close> field.
\<close>

record identity =
  ctx_userID :: nat
  ctx_email :: string
  ctx_role :: string

type_synonym response = "nat \<times> string"

text \<open>
  \<open>dto.UpdateUserRoleRequest\<close> is bound with \<open>required,oneof=user admin\<close>. The body is
  either not JSON of the expected shape or gives the \<open>role\<close> field, empty when absent.
\<close>

datatype role_body = BadBody string | RoleBody string

fun ShouldBindJSON_UpdateUserRoleRequest :: "role_body \<Rightarrow> string + string" where
  "ShouldBindJSON_UpdateUserRoleRequest (BadBody e) = Inl e"
| "ShouldBindJSON_UpdateUserRoleRequest (RoleBody r) =
     (if r = '''' then Inl ''Field validation for 'Role' failed on the 'required' tag''
      else if r = ''user'' \<or> r = ''admin'' then Inr r
      else Inl ''Field validation for 'Role' failed on the 'oneof' tag'')"

definition AuthHandler_UpdateUserRole ::
  "User list \<Rightarrow> identity \<Rightarrow> string \<Rightarrow> role_body \<Rightarrow> User list \<times> response" where
  "AuthHandler_UpdateUserRole db c id_param body =
     (case ParseUint32 id_param of
        None \<Rightarrow> (db, (StatusBadRequest, ''invalid user ID''))
      | Some uid \<Rightarrow>
         (case AuthService_GetCurrentUser db (ctx_userID c) of
            Inl e \<Rightarrow> (db, (StatusInternalServerError, err_Error e))
          | Inr currentUser \<Rightarrow>
             if Role currentUser \<noteq> RoleAdmin
             then (db, (StatusForbidden, ''only admin can update user roles''))
             else (case ShouldBindJSON_UpdateUserRoleRequest body of
                     Inl e \<Rightarrow> (db, (StatusBadRequest, e))
                   | Inr req_role \<Rightarrow>
                      (case AuthService_UpdateUserRole db uid req_role of
                         (db', Some e) \<Rightarrow>
                           if e = ErrRecordNotFound then (db', (StatusNotFound, ''user not found''))
                           else (db', (StatusInternalServerError, err_Error e))
                       | (db', None) \<Rightarrow> (db', (StatusOK, ''user role updated successfully''))))))"

definition AuthHandler_DeleteUser ::
  "User list \<Rightarrow> Time \<Rightarrow> identity \<Rightarrow> string \<Rightarrow> User list \<times> response" where
  "AuthHandler_DeleteUser db now c id_param =
     (case ParseUint32 id_param of
        None \<Rightarrow> (db, (StatusBadRequest, ''invalid user ID''))
      | Some uid \<Rightarrow>
         (case AuthService_GetCurrentUser db (ctx_userID c) of
            Inl e \<Rightarrow> (db, (StatusInternalServerError, err_Error e))
          | Inr currentUser \<Rightarrow>
             if Role currentUser \<noteq> RoleAdmin
             then (db, (StatusForbidden, ''only admin can delete users''))
             else (case AuthService_DeleteUser db now uid of
                     (db', Some e) \<Rightarrow>
                       if e = ErrRecordNotFound then (db', (StatusNotFound, ''user not found''))
                       else if err_Error e = ''cannot delete admin user''
                       then (db', (StatusForbidden, err_Error e))
                       else (db', (StatusInternalServerError, err_Error e))
                   | (db', None) \<Rightarrow> (db', (StatusOK, ''user deleted successfully'')))))"

text \<open>
  \<open>strings.TrimSpace\<close> removes the leading and the trailing white space of a string, as
  \<open>unicode.IsSpace\<close> defines it: the six ASCII characters tab, line feed, vertical tab,
  form feed, carriage return and space, and the code points U+0085, U+00A0, U+1680,
  U+2000 to U+200A, U+2028, U+2029, U+202F, U+205F and U+3000. A Go string is a
  sequence of bytes and the function decodes UTF-8 from either end; a byte sequence
  that is not valid UTF-8 decodes to U+FFFD, which is not white space. Go's decoder
  accepts only the shortest encoding of a code point, so the leading (trailing) rune
  is white space exactly when the string starts (ends) with the UTF-8 encoding of one
  of these code points. The model removes these encodings from both ends.
\<close>

definition white_space_runes :: "nat list" where
  "white_space_runes =
     [0x09, 0x0A, 0x0B, 0x0C, 0x0D, 0x20, 0x85, 0xA0, 0x1680,
      0x2000, 0x2001, 0x2002, 0x2003, 0x2004, 0x2005, 0x2006, 0x2007, 0x2008, 0x2009, 0x200A,
      0x2028, 0x2029, 0x202F, 0x205F, 0x3000]"

text \<open>\<open>utf8.EncodeRune\<close> for the code points below U+10000 that are not surrogates.\<close>

definition EncodeRune :: "nat \<Rightarrow> nat list" where
  "EncodeRune r =
     (if r < 0x80 then [r]
      else if r < 0x800 then [0xC0 + r div 64, 0x80 + r mod 64]
      else [0xE0 + r div 4096, 0x80 + (r div 64) mod 64, 0x80 + r mod 64])"

definition white_space_encodings :: "nat list list" where
  "white_space_encodings = map EncodeRune white_space_runes"

text \<open>
  The number of bytes at the front of a byte sequence that belong to white-space runes,
  for a given list of encodings.
\<close>

fun leading_width :: "nat list list \<Rightarrow> nat list \<Rightarrow> nat" where
  "leading_width encs [] = 0"
| "leading_width encs (b # bs) =
     (case find (\<lambda>e. is_prefix e (b # bs)) encs of
        None \<Rightarrow> 0
      | Some e \<Rightarrow> length e + leading_width encs (drop (length e - 1) bs))"

definition TrimLeft :: "string \<Rightarrow> string" where
  "TrimLeft s = drop (leading_width white_space_encodings (map of_char s)) s"

definition TrimRight :: "string \<Rightarrow> string" where
  "TrimRight s =
     take (length s - leading_width (map rev white_space_encodings) (rev (map of_char s))) s"

definition TrimSpace :: "string \<Rightarrow> string" where
  "TrimSpace s = TrimRight (TrimLeft s)"

record RegisterRequest =
  reg_Username :: string
  reg_Email :: string
  reg_FullName :: string
  reg_Password :: string
  reg_ConfirmPassword :: string
  reg_Role :: string

text \<open>
  \<open>Register\<close> receives what \<open>c.ShouldBindJSON\<close> returned: the binding error, or the
  request that passed the binding tags of \<open>dto.RegisterRequest\<close>.
\<close>

definition AuthHandler_Register ::
  "(string \<Rightarrow> err + string) \<Rightarrow> User list \<Rightarrow> string + RegisterRequest \<Rightarrow> User list \<times> response" where
  "AuthHandler_Register bcrypt db bound =
     (case bound of
        Inl e \<Rightarrow> (db, (StatusBadRequest, e))
      | Inr req \<Rightarrow>
         if reg_Password req \<noteq> reg_ConfirmPassword req
         then (db, (StatusBadRequest, ''passwords do not match''))
         else
          (let username = TrimSpace (reg_Username req);
               email = TrimSpace (reg_Email req);
               fullName = TrimSpace (reg_FullName req)
           in if username = '''' \<or> email = '''' \<or> fullName = ''''
              then (db, (StatusBadRequest, ''username, email and full name cannot be empty''))
              else if reg_Role req \<noteq> '''' \<and> reg_Role req \<noteq> RoleUser
              then (if reg_Role req = RoleAdmin
                    then (db, (StatusForbidden, ''unauthorized to create admin account''))
                    else (db, (StatusBadRequest, ''invalid role'')))
              else
               (case UserRepository_Create bcrypt db
                       \<lparr>ID = 0, Username = username, Email = email, FullName = fullName,
                        Password = reg_Password req, Role = RoleUser, DeletedAt = None\<rparr> of
                  (db', Some e) \<Rightarrow>
                    if Contains (err_Error e) ''username already exists''
                    then (db', (StatusConflict, ''username already exists''))
                    else if Contains (err_Error e) ''email already exists''
                    then (db', (StatusConflict, ''email already exists''))
                    else (db', (StatusInternalServerError, ''failed to create user''))
                | (db', None) \<Rightarrow> (db', (StatusCreated, ''user registered successfully'')))))"

text \<open>
  A store whose roles are the two constants. The handlers store no other role
  (\<open>Register\<close> writes \<open>user\<close>, \<open>UpdateUserRole\<close> is bound with \<open>oneof=user admin\<close>);
  \<open>AuthService.UpdateUserRole\<close> itself stores the role it is given, and the column is
  a \<open>varchar\<close>.
\<close>

definition roles_closed :: "User list \<Rightarrow> bool" where
  "roles_closed db = list_all (\<lambda>u. Role u = RoleAdmin \<or> Role u = RoleUser) db"

text \<open>
  The checks of \<open>Register\<close> that precede its switch on the role: the two passwords agree,
  and the trimmed username, email and full name are not empty.
\<close>

definition passes_checks :: "RegisterRequest \<Rightarrow> bool" where
  "passes_checks req =
     (reg_Password req = reg_ConfirmPassword req
      \<and> TrimSpace (reg_Username req) \<noteq> ''''
      \<and> TrimSpace (reg_Email req) \<noteq> ''''
      \<and> TrimSpace (reg_FullName req) \<noteq> '''')"

section \<open>Configuration (config, pkg/utils)\<close>

text \<open>
  The process environment maps variable names to values; \<open>os.Getenv\<close> reads an unset
  variable as the empty string.
\<close>

type_synonym environ = "string \<rightharpoonup> string"

definition os_Getenv :: "environ \<Rightarrow> string \<Rightarrow> string" where
  "os_Getenv env k = (case env k of None \<Rightarrow> '''' | Some v \<Rightarrow> v)"

definition getEnv :: "environ \<Rightarrow> string \<Rightarrow> string \<Rightarrow> string" where
  "getEnv env k defaultValue =
     (let v = os_Getenv env k in if v = '''' then defaultValue else v)"

text \<open>
  Modelled from the spec: \<open>utils.GetEnv\<close> (package \<open>pkg/utils\<close>) is called by the token
  functions of \<open>AuthService\<close> and is not among the sources. The spec has a configuration
  collaborator supply the signing secrets; \<open>GetEnv(key, fallback)\<close> is taken to read the
  environment variable \<open>key\<close> and to return \<open>fallback\<close> when it is unset or empty, as
  \<open>config.getEnv\<close> does.
\<close>

definition GetEnv :: "environ \<Rightarrow> string \<Rightarrow> string \<Rightarrow> string" where
  "GetEnv env k fallback = getEnv env k fallback"

text \<open>
  \<open>strconv.Atoi\<close>: an optional sign, then a non-empty string of decimal digits, whose
  value fits a 64-bit \<open>int\<close>.
\<close>

definition Atoi :: "string \<Rightarrow> int option" where
  "Atoi s =
     (let neg = (s \<noteq> [] \<and> hd s = CHR ''-'');
          ds = (if s \<noteq> [] \<and> (hd s = CHR ''-'' \<or> hd s = CHR ''+'') then tl s else s)
      in if ds = [] then None
         else (case digits_value 0 ds of
                 None \<Rightarrow> None
               | Some n \<Rightarrow>
                   (let v = (if neg then - int n else int n)
                    in if - (2 ^ 63) \<le> v \<and> v < 2 ^ 63 then Some v else None)))"

record Config =
  DBHost :: string
  DBPort :: int
  DBUser :: string
  DBPassword :: string
  DBName :: string
  JWTSecret :: string
  JWTRefreshSecret :: string

definition LoadConfig :: "environ \<Rightarrow> string + Config" where
  "LoadConfig env =
     (case Atoi (getEnv env ''DB_PORT'' ''5432'') of
        None \<Rightarrow> Inl ''strconv.Atoi: parsing failed''
      | Some dbPort \<Rightarrow>
          Inr \<lparr>DBHost = getEnv env ''DB_HOST'' ''localhost'',
               DBPort = dbPort,
               DBUser = getEnv env ''DB_USER'' ''postgres'',
               DBPassword = getEnv env ''DB_PASSWORD'' ''postgres'',
               DBName = getEnv env ''DB_NAME'' ''product_management'',
               JWTSecret = getEnv env ''JWT_SECRET'' ''01964c7b_9461_735b_82af_c02f626b7066'',
               JWTRefreshSecret =
                 getEnv env ''JWT_REFRESH_SECRET'' ''01964c7b_9461_735b_82af_c02f626b7066SASS''\<rparr>)"

section \<open>The JWT library as the code uses it (github.com/golang-jwt/jwt/v5)\<close>

text \<open>
  The library is not part of the repository. Its control flow is modelled after
  \<open>Parser.ParseWithClaims\<close>, \<open>Validator.Validate\<close> and \<open>MapClaims\<close> of version 5, with
  the options \<open>jwt.Parse\<close> is called with here (none). What the library computes on
  bytes is a parameter of the model, the record \<open>jwt_lib\<close>:
  \<^item> \<open>SigningString\<close>: the first two segments of the compact form, the base64url
    encodings of the JSON header and of the JSON claims, joined by a dot;
  \<^item> \<open>Sign\<close>: the third segment, the encoded HMAC of a signing string under a key, with
    the hash of the method;
  \<^item> \<open>ParseUnverified\<close>: splitting a token string and decoding its three segments,
    without any check of the signature. It fails on a string that is not three
    segments of base64url, of which the first two are JSON, or that names no
    registered signing method.

  Claims are what \<open>encoding/json\<close> decodes into a \<open>MapClaims\<close>: a number (a
  \<open>float64\<close>, here the rational it denotes), a string, or a value of another kind.
\<close>

datatype json = JNumber rat | JString string | JOther

type_synonym MapClaims = "string \<rightharpoonup> json"

datatype SigningMethod = HS256 | HS384 | HS512 | NonHMAC string

record Token =
  Method :: SigningMethod
  Claims :: MapClaims
  signing_input :: string
  Signature :: string

record jwt_lib =
  SigningString :: "SigningMethod \<Rightarrow> MapClaims \<Rightarrow> string"
  Sign :: "SigningMethod \<Rightarrow> string \<Rightarrow> string \<Rightarrow> string"
  ParseUnverified :: "string \<Rightarrow> Token option"

datatype jwt_error =
  ErrTokenMalformed
| ErrTokenUnverifiable
| ErrTokenSignatureInvalid
| ErrTokenExpired
| ErrTokenNotValidYet
| ErrInvalidType

fun is_HMAC :: "SigningMethod \<Rightarrow> bool" where
  "is_HMAC (NonHMAC alg) = False"
| "is_HMAC m = True"

text \<open>\<open>Token.SignedString(key)\<close>: the signing string, a dot, the signature.\<close>

definition SignedString :: "jwt_lib \<Rightarrow> SigningMethod \<Rightarrow> MapClaims \<Rightarrow> string \<Rightarrow> string" where
  "SignedString L m claims key =
     (let sstr = SigningString L m claims in sstr @ ''.'' @ Sign L m sstr key)"

text \<open>
  \<open>newNumericDateFromSeconds\<close>: \<open>math.Modf\<close> splits the seconds into their integral and
  fractional part, both rounded towards zero; the parts are converted to \<open>int64\<close>;
  \<open>time.Unix\<close> normalises the nanoseconds into the seconds and stores the seconds
  counted from the year 1 in an \<open>int64\<close>, which wraps; \<open>NewNumericDate\<close> truncates the
  instant to the second. The arithmetic on \<open>float64\<close> is taken to be exact. For an
  integral part outside the range of \<open>int64\<close> the Go specification leaves the
  conversion to the implementation; the model takes the least \<open>int64\<close>, the result of
  the conversion instruction of amd64.
\<close>

definition trunc :: "rat \<Rightarrow> int" where
  "trunc q = (if 0 \<le> q then \<lfloor>q\<rfloor> else \<lceil>q\<rceil>)"

definition int64 :: "int \<Rightarrow> int" where
  "int64 x = (x + 2 ^ 63) mod 2 ^ 64 - 2 ^ 63"

definition float64_to_int64 :: "int \<Rightarrow> int" where
  "float64_to_int64 ipart = (if - (2 ^ 63) \<le> ipart \<and> ipart < 2 ^ 63 then ipart else - (2 ^ 63))"

definition unixToInternal :: int where
  "unixToInternal = 62135596800"

definition newNumericDateFromSeconds :: "rat \<Rightarrow> Time" where
  "newNumericDateFromSeconds f =
     (let ipart = trunc f;
          fpart = f - of_int ipart;
          sec = float64_to_int64 ipart;
          nsec = trunc (fpart * of_int Second);
          internal = int64 (sec + nsec div Second + unixToInternal)
      in (internal - unixToInternal) * Second)"

text \<open>
  \<open>MapClaims.parseNumericDate\<close>: an absent claim and the number zero give no date;
  another number gives its date; a value that is not a number is an error.
\<close>

definition parseNumericDate :: "MapClaims \<Rightarrow> string \<Rightarrow> jwt_error + Time option" where
  "parseNumericDate m k =
     (case m k of
        None \<Rightarrow> Inr None
      | Some (JNumber secs) \<Rightarrow>
          if secs = 0 then Inr None else Inr (Some (newNumericDateFromSeconds secs))
      | Some _ \<Rightarrow> Inl ErrInvalidType)"

text \<open>
  \<open>Validator.Validate\<close> with the default validator: \<open>exp\<close> and \<open>nbf\<close> are optional and
  checked when present, with no leeway; \<open>iat\<close>, audience, issuer and subject are not
  checked. \<open>now.Before(t)\<close> is \<open>now < t\<close>.
\<close>

definition verifyExpiresAt :: "MapClaims \<Rightarrow> Time \<Rightarrow> jwt_error option" where
  "verifyExpiresAt claims now =
     (case parseNumericDate claims ''exp'' of
        Inl e \<Rightarrow> Some e
      | Inr None \<Rightarrow> None
      | Inr (Some expiry) \<Rightarrow> if now < expiry then None else Some ErrTokenExpired)"

definition verifyNotBefore :: "MapClaims \<Rightarrow> Time \<Rightarrow> jwt_error option" where
  "verifyNotBefore claims now =
     (case parseNumericDate claims ''nbf'' of
        Inl e \<Rightarrow> Some e
      | Inr None \<Rightarrow> None
      | Inr (Some nbf) \<Rightarrow> if \<not> now < nbf then None else Some ErrTokenNotValidYet)"

definition Validate :: "MapClaims \<Rightarrow> Time \<Rightarrow> jwt_error option" where
  "Validate claims now =
     (case verifyExpiresAt claims now of
        Some e \<Rightarrow> Some e
      | None \<Rightarrow> verifyNotBefore claims now)"

text \<open>
  \<open>jwt.Parse(tokenString, keyFunc)\<close>: decode, ask \<open>keyFunc\<close> for the key, verify the
  signature with the token's method, validate the claims. The result is the error, or
  the token with \<open>Valid\<close> set.
\<close>

definition jwt_Parse ::
  "jwt_lib \<Rightarrow> (Token \<Rightarrow> string + string) \<Rightarrow> Time \<Rightarrow> string \<Rightarrow> jwt_error + Token" where
  "jwt_Parse L keyFunc now tokenString =
     (case ParseUnverified L tokenString of
        None \<Rightarrow> Inl ErrTokenMalformed
      | Some token \<Rightarrow>
         (case keyFunc token of
            Inl e \<Rightarrow> Inl ErrTokenUnverifiable
          | Inr key \<Rightarrow>
             if \<not> (is_HMAC (Method token) \<and>
                    Sign L (Method token) (signing_input token) key = Signature token)
             then Inl ErrTokenSignatureInvalid
             else (case Validate (Claims token) now of
                     Some e \<Rightarrow> Inl e
                   | None \<Rightarrow> Inr token)))"

section \<open>Token service: \<open>AuthService\<close> (internal/services)\<close>

definition Hour :: Duration where "Hour = 3600 * Second"

definition Unix :: "Time \<Rightarrow> int" where
  "Unix t = t div Second"

text \<open>
  The claims are written as JSON carries them: the user's id and the expiry as numbers,
  the email and the role as strings.
\<close>

definition access_claims :: "Time \<Rightarrow> User \<Rightarrow> MapClaims" where
  "access_claims now user =
     [''user_id'' \<mapsto> JNumber (of_nat (ID user)),
      ''email'' \<mapsto> JString (Email user),
      ''role'' \<mapsto> JString (Role user),
      ''exp'' \<mapsto> JNumber (of_int (Unix (now + Hour * 24)))]"

definition refresh_claims :: "Time \<Rightarrow> User \<Rightarrow> MapClaims" where
  "refresh_claims now user =
     [''user_id'' \<mapsto> JNumber (of_nat (ID user)),
      ''exp'' \<mapsto> JNumber (of_int (Unix (now + Hour * 24 * 7)))]"

definition generateAccessToken :: "jwt_lib \<Rightarrow> environ \<Rightarrow> Time \<Rightarrow> User \<Rightarrow> string" where
  "generateAccessToken L env now user =
     SignedString L HS256 (access_claims now user)
       (GetEnv env ''JWT_SECRET'' ''your-secret-key'')"

definition generateRefreshToken :: "jwt_lib \<Rightarrow> environ \<Rightarrow> Time \<Rightarrow> User \<Rightarrow> string" where
  "generateRefreshToken L env now user =
     SignedString L HS256 (refresh_claims now user)
       (GetEnv env ''JWT_REFRESH_SECRET'' ''your-refresh-secret-key'')"

text \<open>
  The key function that all three callers of \<open>jwt.Parse\<close> pass: an error for a token
  whose method is not an HMAC, the secret otherwise.
\<close>

definition HMAC_keyFunc :: "string \<Rightarrow> string \<Rightarrow> Token \<Rightarrow> string + string" where
  "HMAC_keyFunc msg secret token = (if \<not> is_HMAC (Method token) then Inl msg else Inr secret)"

definition ValidateToken :: "jwt_lib \<Rightarrow> environ \<Rightarrow> Time \<Rightarrow> string \<Rightarrow> jwt_error + Token" where
  "ValidateToken L env now tokenString =
     jwt_Parse L
       (HMAC_keyFunc ''unexpected signing method'' (GetEnv env ''JWT_SECRET'' ''your-secret-key''))
       now tokenString"

definition ValidateRefreshToken ::
  "jwt_lib \<Rightarrow> environ \<Rightarrow> Time \<Rightarrow> string \<Rightarrow> jwt_error + Token" where
  "ValidateRefreshToken L env now tokenString =
     jwt_Parse L
       (HMAC_keyFunc ''unexpected signing method''
          (GetEnv env ''JWT_REFRESH_SECRET'' ''your-refresh-secret-key''))
       now tokenString"

section \<open>\<open>AuthMiddleware\<close> (internal/middleware)\<close>

text \<open>\<open>strings.Split(s, sep)\<close> for a separator of one character.\<close>

fun Split :: "string \<Rightarrow> char \<Rightarrow> string list" where
  "Split [] sep = [[]]"
| "Split (c # cs) sep =
     (if c = sep then [] # Split cs sep
      else (c # hd (Split cs sep)) # tl (Split cs sep))"

text \<open>
  \<open>uint(userIDFloat)\<close> truncates. Go leaves the conversion of a number outside the range
  of \<open>uint\<close> to the implementation; the model gives 0 there, and no property below
  depends on it.
\<close>

definition uint_of_float64 :: "rat \<Rightarrow> nat" where
  "uint_of_float64 f = (if 0 \<le> f \<and> f < 2 ^ 64 then nat (trunc f) else 0)"

text \<open>
  \<open>claims_identity\<close> is the extraction of \<open>user_id\<close>, \<open>email\<close> and \<open>role\<close> with their
  type assertions. The handler is given the \<open>Authorization\<close> header (empty when the request has none), the
  environment that \<open>config.LoadConfig\<close> reads and the instant of the call. The type
  assertion of \<open>token.Claims\<close> to \<open>jwt.MapClaims\<close> cannot fail, since \<open>jwt.Parse\<close> decodes
  into a \<open>MapClaims\<close>; its branch is not reachable and is left out.
\<close>

definition claims_identity :: "MapClaims \<Rightarrow> identity option" where
  "claims_identity claims =
     (case (claims ''user_id'', claims ''email'', claims ''role'') of
        (Some (JNumber userIDFloat), Some (JString email), Some (JString role)) \<Rightarrow>
          Some \<lparr>ctx_userID = uint_of_float64 userIDFloat, ctx_email = email, ctx_role = role\<rparr>
      | _ \<Rightarrow> None)"

definition AuthMiddleware :: "jwt_lib \<Rightarrow> environ \<Rightarrow> Time \<Rightarrow> string \<Rightarrow> identity outcome" where
  "AuthMiddleware L env now authHeader =
     (if authHeader = '''' then Abort StatusUnauthorized ''authorization header is required''
      else
       (let parts = Split authHeader CHR '' '' in
        if length parts \<noteq> 2 \<or> parts ! 0 \<noteq> ''Bearer''
        then Abort StatusUnauthorized ''invalid authorization header format''
        else
         (let tokenString = parts ! 1 in
          case LoadConfig env of
            Inl e \<Rightarrow> Abort StatusInternalServerError ''failed to load configuration''
          | Inr cfg \<Rightarrow>
             (case jwt_Parse L (HMAC_keyFunc ''signature is invalid'' (JWTSecret cfg))
                     now tokenString of
                Inl e \<Rightarrow> Abort StatusUnauthorized ''invalid or expired token''
              | Inr token \<Rightarrow>
                 (case claims_identity (Claims token) of
                    None \<Rightarrow> Abort StatusUnauthorized ''missing or invalid claim fields''
                  | Some ident \<Rightarrow> Next ident)))))"

section \<open>What the properties below ask of the JWT library\<close>

text \<open>
  Two properties of the library that the code relies on and that no part of the
  repository can establish. \<open>decodes_own\<close>: the token string that \<open>SignedString\<close> makes
  for a method, a set of claims and a key decodes to that method and those claims,
  with the signing string and the signature it was made from. \<open>key_separating\<close>: the
  signatures of one signing string under two different keys differ (the idealisation
  of an HMAC: a forgery under an unknown key is not modelled).
\<close>

definition decodes_own :: "jwt_lib \<Rightarrow> SigningMethod \<Rightarrow> MapClaims \<Rightarrow> string \<Rightarrow> bool" where
  "decodes_own L m claims key =
     (ParseUnverified L (SignedString L m claims key) =
        Some \<lparr>Method = m, Claims = claims,
              signing_input = SigningString L m claims,
              Signature = Sign L m (SigningString L m claims) key\<rparr>)"

definition key_separating :: "jwt_lib \<Rightarrow> bool" where
  "key_separating L = (\<forall>m sstr k k'. Sign L m sstr k = Sign L m sstr k' \<longrightarrow> k = k')"

section \<open>Sample data\<close>

text \<open>
  Sample data for the closed instances below: a hashing stand-in, the two accounts that
  \<open>seeder.SeedUsers\<close> creates, and the context of a request whose token was issued
  while account 2 was still an administrator.
\<close>

definition sample_bcrypt :: "string \<Rightarrow> err + string" where
  "sample_bcrypt password = Inr (''$2a$10$'' @ password)"

definition seeded_users :: "User list" where
  "seeded_users =
     [\<lparr>ID = 1, Username = ''admin_test'', Email = ''admin@soa.com'', FullName = ''Admin Test'',
       Password = ''$2a$10$password123'', Role = RoleAdmin, DeletedAt = None\<rparr>,
      \<lparr>ID = 2, Username = ''user_test'', Email = ''user@soa.com'', FullName = ''User Test'',
       Password = ''$2a$10$password123'', Role = RoleUser, DeletedAt = None\<rparr>]"

definition stale_admin_ctx :: identity where
  "stale_admin_ctx = \<lparr>ctx_userID = 2, ctx_email = ''user@soa.com'', ctx_role = ''admin''\<rparr>"

definition admin_ctx :: identity where
  "admin_ctx = \<lparr>ctx_userID = 1, ctx_email = ''admin@soa.com'', ctx_role = ''admin''\<rparr>"

definition sample_registration :: "string \<Rightarrow> string \<Rightarrow> RegisterRequest" where
  "sample_registration confirm r =
     \<lparr>reg_Username = ''  johndoe '', reg_Email = ''john@example.com'', reg_FullName = ''John Doe'',
      reg_Password = ''password123'', reg_ConfirmPassword = confirm, reg_Role = r\<rparr>"

text \<open>
  The table after \<open>AuthService.UpdateUserRole(2, "moderator")\<close>, and a registration whose
  full name is the single character U+00A0, a no-break space.
\<close>

definition moderated_users :: "User list" where
  "moderated_users =
     [\<lparr>ID = 1, Username = ''admin_test'', Email = ''admin@soa.com'', FullName = ''Admin Test'',
       Password = ''$2a$10$password123'', Role = RoleAdmin, DeletedAt = None\<rparr>,
      \<lparr>ID = 2, Username = ''user_test'', Email = ''user@soa.com'', FullName = ''User Test'',
       Password = ''$2a$10$password123'', Role = ''moderator'', DeletedAt = None\<rparr>]"

definition nbsp_registration :: RegisterRequest where
  "nbsp_registration =
     \<lparr>reg_Username = ''johndoe'', reg_Email = ''john@example.com'',
      reg_FullName = [CHR 0xC2, CHR 0xA0],
      reg_Password = ''password123'', reg_ConfirmPassword = ''password123'', reg_Role = ''admin''\<rparr>"

text \<open>
  A stand-in for the JWT library, for the closed instances below. It knows four
  payloads: the access and the refresh token of account 2 issued at \<open>login_time\<close>, an
  access token whose \<open>exp\<close> is 0, and one without a \<open>role\<close>. Its signature of a
  signing string is the key followed by that string: it keeps nothing secret, and
  it separates keys. \<open>default_env\<close> is the environment in which no variable is set.
\<close>

definition login_time :: Time where "login_time = 1700000000 * Second"
definition request_time :: Time where "request_time = 1700000060 * Second"

definition sample_access_claims :: MapClaims where
  "sample_access_claims =
     [''user_id'' \<mapsto> JNumber 2, ''email'' \<mapsto> JString ''user@soa.com'',
      ''role'' \<mapsto> JString ''user'', ''exp'' \<mapsto> JNumber 1700086400]"

definition sample_refresh_claims :: MapClaims where
  "sample_refresh_claims = [''user_id'' \<mapsto> JNumber 2, ''exp'' \<mapsto> JNumber 1700604800]"

definition sample_epoch_claims :: MapClaims where
  "sample_epoch_claims =
     [''user_id'' \<mapsto> JNumber 2, ''email'' \<mapsto> JString ''user@soa.com'',
      ''role'' \<mapsto> JString ''user'', ''exp'' \<mapsto> JNumber 0]"

definition sample_norole_claims :: MapClaims where
  "sample_norole_claims =
     [''user_id'' \<mapsto> JNumber 2, ''email'' \<mapsto> JString ''user@soa.com'',
      ''exp'' \<mapsto> JNumber 1700086400]"

definition sample_Sign :: "SigningMethod \<Rightarrow> string \<Rightarrow> string \<Rightarrow> string" where
  "sample_Sign m sstr key = key @ ''/'' @ sstr"

definition sample_SigningString :: "SigningMethod \<Rightarrow> MapClaims \<Rightarrow> string" where
  "sample_SigningString m claims =
     (case claims ''role'' of None \<Rightarrow> ''hdr.refresh'' | Some r \<Rightarrow> ''hdr.access'')"

definition sample_ParseUnverified :: "string \<Rightarrow> Token option" where
  "sample_ParseUnverified s =
     (if is_prefix ''hdr.access.'' s
      then Some \<lparr>Method = HS256, Claims = sample_access_claims,
                 signing_input = ''hdr.access'', Signature = drop 11 s\<rparr>
      else if is_prefix ''hdr.refresh.'' s
      then Some \<lparr>Method = HS256, Claims = sample_refresh_claims,
                 signing_input = ''hdr.refresh'', Signature = drop 12 s\<rparr>
      else if is_prefix ''hdr.epoch.'' s
      then Some \<lparr>Method = HS256, Claims = sample_epoch_claims,
                 signing_input = ''hdr.epoch'', Signature = drop 10 s\<rparr>
      else if is_prefix ''hdr.norole.'' s
      then Some \<lparr>Method = HS256, Claims = sample_norole_claims,
                 signing_input = ''hdr.norole'', Signature = drop 11 s\<rparr>
      else None)"

definition sample_lib :: jwt_lib where
  "sample_lib =
     \<lparr>SigningString = sample_SigningString, Sign = sample_Sign,
      ParseUnverified = sample_ParseUnverified\<rparr>"

definition default_env :: environ where
  "default_env = Map.empty"

text \<open>
  Three token strings of the stand-in, each signed with the secret that \<open>LoadConfig\<close>
  yields in \<open>default_env\<close>: the access token of account 2, the token whose \<open>exp\<close> is 0,
  and the token without a \<open>role\<close>; and an instant after the expiry of the first.
\<close>

definition config_signed_token :: string where
  "config_signed_token = ''hdr.access.01964c7b_9461_735b_82af_c02f626b7066/hdr.access''"

definition epoch_token :: string where
  "epoch_token = ''hdr.epoch.01964c7b_9461_735b_82af_c02f626b7066/hdr.epoch''"

definition norole_token :: string where
  "norole_token = ''hdr.norole.01964c7b_9461_735b_82af_c02f626b7066/hdr.norole''"

definition late_time :: Time where "late_time = 1700090000 * Second"

definition default_config :: Config where
  "default_config =
     \<lparr>DBHost = ''localhost'', DBPort = 5432, DBUser = ''postgres'', DBPassword = ''postgres'',
      DBName = ''product_management'',
      JWTSecret = ''01964c7b_9461_735b_82af_c02f626b7066'',
      JWTRefreshSecret = ''01964c7b_9461_735b_82af_c02f626b7066SASS''\<rparr>"

section \<open>Properties of the request throttle\<close>

lemma RateLimitMiddleware_frame:
  "k \<noteq> ip \<Longrightarrow> entry (fst (RateLimitMiddleware limit window st ip now)) k = entry st k"
  by (simp add: RateLimitMiddleware_def reset_window_def entry_def Let_def
      split: option.splits)

lemma RateLimitMiddleware_local:
  assumes "entry st ip = entry st' ip"
  shows "entry (fst (RateLimitMiddleware limit window st ip now)) ip =
           entry (fst (RateLimitMiddleware limit window st' ip now)) ip
         \<and> snd (RateLimitMiddleware limit window st ip now) =
           snd (RateLimitMiddleware limit window st' ip now)"
  using assms
  by (simp add: RateLimitMiddleware_def reset_window_def entry_def count_of_def Let_def
      split: option.splits)

lemma length_serve: "length (snd (serve limit window st reqs)) = length reqs"
  by (induction reqs arbitrary: st) (auto simp: split_beta Let_def)

lemma serve_noninterference:
  "entry st k = entry st' k \<Longrightarrow>
   entry (fst (serve limit window st reqs)) k = entry (fst (serve limit window st' (for_key k reqs))) k \<and>
   outcomes_for k reqs (snd (serve limit window st reqs)) = snd (serve limit window st' (for_key k reqs))"
proof (induction reqs arbitrary: st st')
  case Nil
  then show ?case by (simp add: for_key_def outcomes_for_def)
next
  case (Cons r rs)
  obtain ip now where r: "r = (ip, now)" by (cases r)
  show ?case
  proof (cases "ip = k")
    case True
    have loc: "entry (fst (RateLimitMiddleware limit window st k now)) k =
           entry (fst (RateLimitMiddleware limit window st' k now)) k"
      "snd (RateLimitMiddleware limit window st k now) =
           snd (RateLimitMiddleware limit window st' k now)"
      using RateLimitMiddleware_local [OF Cons.prems] by auto
    from Cons.IH [OF loc(1)] loc(2) show ?thesis
      using True r by (simp add: for_key_def outcomes_for_def split_beta Let_def)
  next
    case False
    then have "entry (fst (RateLimitMiddleware limit window st ip now)) k = entry st' k"
      using RateLimitMiddleware_frame [of k ip] Cons.prems by simp
    from Cons.IH [OF this] show ?thesis
      using False r by (simp add: for_key_def outcomes_for_def split_beta Let_def)
  qed
qed

lemma in_window_run:
  assumes "lastReset st ip = Some t0" "requests st ip = Some c" "0 \<le> c" "c \<le> limit"
    and "\<forall>t \<in> set ts. time_Sub t t0 \<le> window"
  shows "snd (serve limit window st (map (Pair ip) ts)) =
           replicate (min (nat (limit - c)) (length ts)) (Next ()) @
           replicate (length ts - nat (limit - c)) (Abort StatusTooManyRequests ''Rate limit exceeded'')
         \<and> requests (fst (serve limit window st (map (Pair ip) ts))) ip = Some (min limit (c + int (length ts)))
         \<and> lastReset (fst (serve limit window st (map (Pair ip) ts))) ip = Some t0"
  using assms
proof (induction ts arbitrary: st c)
  case Nil
  then show ?case by simp
next
  case (Cons t ts)
  have nw: "reset_window window st ip t = st"
    using Cons.prems by (simp add: reset_window_def)
  show ?case
  proof (cases "c < limit")
    case True
    let ?st1 = "st\<lparr>requests := (requests st)(ip \<mapsto> c + 1)\<rparr>"
    have step: "RateLimitMiddleware limit window st ip t = (?st1, Next ())"
      using True Cons.prems nw by (simp add: RateLimitMiddleware_def count_of_def)
    have ih: "snd (serve limit window ?st1 (map (Pair ip) ts)) =
           replicate (min (nat (limit - (c+1))) (length ts)) (Next ()) @
           replicate (length ts - nat (limit - (c+1))) (Abort StatusTooManyRequests ''Rate limit exceeded'')
         \<and> requests (fst (serve limit window ?st1 (map (Pair ip) ts))) ip = Some (min limit ((c+1) + int (length ts)))
         \<and> lastReset (fst (serve limit window ?st1 (map (Pair ip) ts))) ip = Some t0"
      using Cons.prems True by (intro Cons.IH) auto
    have n: "nat (limit - c) = Suc (nat (limit - (c + 1)))" using True by simp
    show ?thesis using step ih
      by (simp add: split_beta n min_def)
  next
    case False
    then have eq: "c = limit" using Cons.prems by simp
    have step: "RateLimitMiddleware limit window st ip t = (st, Abort StatusTooManyRequests ''Rate limit exceeded'')"
      using eq Cons.prems nw by (simp add: RateLimitMiddleware_def count_of_def)
    have ih: "snd (serve limit window st (map (Pair ip) ts)) =
           replicate (min (nat (limit - c)) (length ts)) (Next ()) @
           replicate (length ts - nat (limit - c)) (Abort StatusTooManyRequests ''Rate limit exceeded'')
         \<and> requests (fst (serve limit window st (map (Pair ip) ts))) ip = Some (min limit (c + int (length ts)))
         \<and> lastReset (fst (serve limit window st (map (Pair ip) ts))) ip = Some t0"
      using Cons.prems by (intro Cons.IH) auto
    show ?thesis using step ih eq
      by (simp add: split_beta min_def replicate_append_same)
  qed
qed

text \<open>
  Claim C7 (throttle isolation). Handling a request of client key \<open>ip\<close> leaves the
  counter entry of every other key \<open>k\<close> as it was. Over a whole run of interleaved
  requests, the entry that \<open>k\<close> ends with and the outcomes its requests receive are
  those of the run in which only the requests of \<open>k\<close> arrive: the requests of other keys
  are neither read nor written on behalf of \<open>k\<close>.
\<close>
theorem throttle_isolation:
  assumes "k \<noteq> ip"
  shows "entry (fst (RateLimitMiddleware limit window st ip now)) k = entry st k
       \<and> entry (fst (serve limit window st reqs)) k =
           entry (fst (serve limit window st (for_key k reqs))) k
       \<and> outcomes_for k reqs (snd (serve limit window st reqs)) =
           snd (serve limit window st (for_key k reqs))"
  using RateLimitMiddleware_frame [OF assms] serve_noninterference [of st k st]
  by simp

lemma fresh_step:
  assumes "requests st ip = None" "lastReset st ip = None" "0 < limit"
  shows "RateLimitMiddleware limit window st ip now =
     (st\<lparr>lastReset := (lastReset st)(ip \<mapsto> now), requests := (requests st)(ip \<mapsto> 1)\<rparr>, Next ())"
  using assms by (simp add: RateLimitMiddleware_def reset_window_def count_of_def)

lemma late_step:
  assumes "lastReset st ip = Some t0" "window < time_Sub now t0" "0 < limit"
  shows "snd (RateLimitMiddleware limit window st ip now) = Next ()
     \<and> requests (fst (RateLimitMiddleware limit window st ip now)) ip = Some 1
     \<and> lastReset (fst (RateLimitMiddleware limit window st ip now)) ip = Some now"
  using assms by (simp add: RateLimitMiddleware_def reset_window_def count_of_def)

text \<open>
  Claim C4 (throttle boundary). With \<open>limit = 3\<close> and a window of 60 seconds, let a
  client key that the limiter has not seen send a first request at \<open>t0\<close> and then the
  requests \<open>ts\<close>, none of them more than the window after \<open>t0\<close>. The first three of
  these requests are admitted and every later one is answered 429; the counter stops
  at 3, so a rejected request does not increment it, and the window start stays \<open>t0\<close>.
  The next request that arrives more than the window after \<open>t0\<close> is admitted, with the
  counter restarted at 1 and the window start moved to its arrival instant.
\<close>

theorem throttle_boundary:
  assumes fresh: "requests st ip = None" "lastReset st ip = None"
    and inw: "\<forall>t \<in> set ts. time_Sub t t0 \<le> 60 * Second"
    and late: "60 * Second < time_Sub t' t0"
  shows "snd (serve 3 (60 * Second) st (map (Pair ip) (t0 # ts))) =
           replicate (min 3 (Suc (length ts))) (Next ()) @
           replicate (Suc (length ts) - 3) (Abort StatusTooManyRequests ''Rate limit exceeded'')
       \<and> requests (fst (serve 3 (60 * Second) st (map (Pair ip) (t0 # ts)))) ip =
           Some (min 3 (1 + int (length ts)))
       \<and> lastReset (fst (serve 3 (60 * Second) st (map (Pair ip) (t0 # ts)))) ip = Some t0
       \<and> snd (RateLimitMiddleware 3 (60 * Second)
                (fst (serve 3 (60 * Second) st (map (Pair ip) (t0 # ts)))) ip t') = Next ()
       \<and> requests (fst (RateLimitMiddleware 3 (60 * Second)
                (fst (serve 3 (60 * Second) st (map (Pair ip) (t0 # ts)))) ip t')) ip = Some 1
       \<and> lastReset (fst (RateLimitMiddleware 3 (60 * Second)
                (fst (serve 3 (60 * Second) st (map (Pair ip) (t0 # ts)))) ip t')) ip = Some t'"
proof -
  let ?st1 = "st\<lparr>lastReset := (lastReset st)(ip \<mapsto> t0), requests := (requests st)(ip \<mapsto> 1)\<rparr>"
  let ?run = "serve 3 (60 * Second) ?st1 (map (Pair ip) ts)"
  have first: "RateLimitMiddleware 3 (60 * Second) st ip t0 = (?st1, Next ())"
    using fresh by (simp add: fresh_step)
  have rest: "snd ?run =
           replicate (min (nat (3 - 1)) (length ts)) (Next ()) @
           replicate (length ts - nat (3 - 1)) (Abort StatusTooManyRequests ''Rate limit exceeded'')
         \<and> requests (fst ?run) ip = Some (min 3 (1 + int (length ts)))
         \<and> lastReset (fst ?run) ip = Some t0"
    using inw by (intro in_window_run) auto
  have unfold: "serve 3 (60 * Second) st (map (Pair ip) (t0 # ts)) = (fst ?run, Next () # snd ?run)"
    using first by (simp add: split_beta)
  have two: "nat (3 - 1) = 2" by simp
  have outs: "Next () # snd ?run = replicate (min 3 (Suc (length ts))) (Next ()) @
           replicate (Suc (length ts) - 3) (Abort StatusTooManyRequests ''Rate limit exceeded'')"
  proof (cases "2 \<le> length ts")
    case True
    then have "min 2 (length ts) = 2" "min 3 (Suc (length ts)) = 3" "Suc (length ts) - 3 = length ts - 2"
      by auto
    then show ?thesis using rest by (simp add: two numeral_3_eq_3 numeral_2_eq_2)
  next
    case False
    then have "min 2 (length ts) = length ts" "min 3 (Suc (length ts)) = Suc (length ts)"
      "Suc (length ts) - 3 = 0" "length ts - 2 = 0"
      by auto
    then show ?thesis using rest by (simp add: two)
  qed
  have lateq: "snd (RateLimitMiddleware 3 (60 * Second) (fst ?run) ip t') = Next ()
     \<and> requests (fst (RateLimitMiddleware 3 (60 * Second) (fst ?run) ip t')) ip = Some 1
     \<and> lastReset (fst (RateLimitMiddleware 3 (60 * Second) (fst ?run) ip t')) ip = Some t'"
    using rest late by (intro late_step) auto
  show ?thesis
    unfolding unfold using outs rest lateq by simp
qed

lemmas limiter_eval = RateLimitMiddleware_def reset_window_def count_of_def time_Sub_def
  maxDuration_def minDuration_def Second_def new_limiter_def entry_def for_key_def outcomes_for_def

theorem throttle_boundary_witness:
  "snd (serve 3 (60 * Second) new_limiter
      (map (Pair ''10.0.0.1'') [0, 10 * Second, 20 * Second, 60 * Second])) =
     [Next (), Next (), Next (), Abort 429 ''Rate limit exceeded'']
   \<and> requests (fst (serve 3 (60 * Second) new_limiter
      (map (Pair ''10.0.0.1'') [0, 10 * Second, 20 * Second, 60 * Second]))) ''10.0.0.1'' = Some 3
   \<and> snd (RateLimitMiddleware 3 (60 * Second) (fst (serve 3 (60 * Second) new_limiter
      (map (Pair ''10.0.0.1'') [0, 10 * Second, 20 * Second, 60 * Second]))) ''10.0.0.1''
        (60 * Second + 1)) = Next ()
   \<and> requests (fst (RateLimitMiddleware 3 (60 * Second) (fst (serve 3 (60 * Second) new_limiter
      (map (Pair ''10.0.0.1'') [0, 10 * Second, 20 * Second, 60 * Second]))) ''10.0.0.1''
        (60 * Second + 1))) ''10.0.0.1'' = Some 1"
  using throttle_boundary [of new_limiter "''10.0.0.1''" "[10 * Second, 20 * Second, 60 * Second]" 0
      "60 * Second + 1"]
  by (simp add: new_limiter_def time_Sub_def maxDuration_def minDuration_def Second_def
      StatusTooManyRequests_def numeral_3_eq_3)

theorem throttle_isolation_witness:
  "entry (fst (serve 1 (60 * Second) new_limiter
       [(''a'', 0), (''b'', 1), (''a'', 2), (''b'', 3)])) ''a'' = (Some 1, Some 0)
   \<and> outcomes_for ''a'' [(''a'', 0), (''b'', 1), (''a'', 2), (''b'', 3)]
        (snd (serve 1 (60 * Second) new_limiter [(''a'', 0), (''b'', 1), (''a'', 2), (''b'', 3)])) =
      [Next (), Abort 429 ''Rate limit exceeded'']
   \<and> entry (fst (RateLimitMiddleware 1 (60 * Second) new_limiter ''b'' 1)) ''a'' = (None, None)"
  using throttle_isolation [of "''a''" "''b''" 1 "60 * Second" new_limiter 1
      "[(''a'', 0), (''b'', 1), (''a'', 2), (''b'', 3)]"]
  by (simp add: limiter_eval StatusTooManyRequests_def)

section \<open>Properties of registration, role update and deletion\<close>

lemma Create_cases:
  "(\<exists>u. Role u = Role user \<and> UserRepository_Create bcrypt db user = (db @ [u], None))
   \<or> (\<exists>e. UserRepository_Create bcrypt db user = (db, Some e))"
  by (auto simp: UserRepository_Create_def BeforeSave_def split: sum.splits)

lemma Register_unbound:
  "AuthHandler_Register bcrypt db (Inl e) = (db, (StatusBadRequest, e))"
  by (simp add: AuthHandler_Register_def)

lemma Register_mismatch:
  "reg_Password req \<noteq> reg_ConfirmPassword req \<Longrightarrow>
   AuthHandler_Register bcrypt db (Inr req) = (db, (StatusBadRequest, ''passwords do not match''))"
  by (simp add: AuthHandler_Register_def)

lemma Register_empty_field:
  "reg_Password req = reg_ConfirmPassword req \<Longrightarrow>
   TrimSpace (reg_Username req) = '''' \<or> TrimSpace (reg_Email req) = ''''
     \<or> TrimSpace (reg_FullName req) = '''' \<Longrightarrow>
   AuthHandler_Register bcrypt db (Inr req) =
     (db, (StatusBadRequest, ''username, email and full name cannot be empty''))"
  by (simp add: AuthHandler_Register_def Let_def)

lemma Register_admin:
  "passes_checks req \<Longrightarrow> reg_Role req = RoleAdmin \<Longrightarrow>
   AuthHandler_Register bcrypt db (Inr req) =
     (db, (StatusForbidden, ''unauthorized to create admin account''))"
  by (simp add: AuthHandler_Register_def passes_checks_def Let_def RoleAdmin_def RoleUser_def)

lemma Register_other_role:
  "passes_checks req \<Longrightarrow>
   reg_Role req \<noteq> '''' \<Longrightarrow> reg_Role req \<noteq> RoleUser \<Longrightarrow> reg_Role req \<noteq> RoleAdmin \<Longrightarrow>
   AuthHandler_Register bcrypt db (Inr req) = (db, (StatusBadRequest, ''invalid role''))"
  by (simp add: AuthHandler_Register_def passes_checks_def Let_def)

lemma Register_create:
  assumes "passes_checks req" and "reg_Role req = '''' \<or> reg_Role req = RoleUser"
  shows "(\<exists>u. Role u = RoleUser \<and>
             AuthHandler_Register bcrypt db (Inr req) =
               (db @ [u], (StatusCreated, ''user registered successfully'')))
       \<or> (\<exists>status msg. (status = StatusConflict \<or> status = StatusInternalServerError) \<and>
             AuthHandler_Register bcrypt db (Inr req) = (db, (status, msg)))"
proof -
  let ?user = "\<lparr>ID = 0, Username = TrimSpace (reg_Username req), Email = TrimSpace (reg_Email req),
      FullName = TrimSpace (reg_FullName req), Password = reg_Password req, Role = RoleUser,
      DeletedAt = None\<rparr>"
  have reg: "AuthHandler_Register bcrypt db (Inr req) =
      (case UserRepository_Create bcrypt db ?user of
         (db', Some e) \<Rightarrow>
           if Contains (err_Error e) ''username already exists''
           then (db', (StatusConflict, ''username already exists''))
           else if Contains (err_Error e) ''email already exists''
           then (db', (StatusConflict, ''email already exists''))
           else (db', (StatusInternalServerError, ''failed to create user''))
       | (db', None) \<Rightarrow> (db', (StatusCreated, ''user registered successfully'')))"
    using assms by (auto simp: AuthHandler_Register_def passes_checks_def Let_def)
  from Create_cases [of ?user bcrypt db] show ?thesis
  proof
    assume "\<exists>v. Role v = Role ?user \<and> UserRepository_Create bcrypt db ?user = (db @ [v], None)"
    then obtain v where "Role v = RoleUser"
      "UserRepository_Create bcrypt db ?user = (db @ [v], None)"
      by auto
    then show ?thesis unfolding reg by auto
  next
    assume "\<exists>e. UserRepository_Create bcrypt db ?user = (db, Some e)"
    then obtain e where "UserRepository_Create bcrypt db ?user = (db, Some e)" by auto
    then show ?thesis unfolding reg by auto
  qed
qed

lemma Register_outcomes:
  "(\<exists>u. Role u = RoleUser \<and> fst (AuthHandler_Register bcrypt db bound) = db @ [u])
   \<or> fst (AuthHandler_Register bcrypt db bound) = db"
proof (cases bound)
  case (Inl e)
  then show ?thesis by (simp add: Register_unbound)
next
  case (Inr req)
  show ?thesis
  proof (cases "passes_checks req")
    case False
    then have "AuthHandler_Register bcrypt db (Inr req) =
        (db, (StatusBadRequest, ''passwords do not match''))
      \<or> AuthHandler_Register bcrypt db (Inr req) =
        (db, (StatusBadRequest, ''username, email and full name cannot be empty''))"
      using Register_mismatch [of req bcrypt db] Register_empty_field [of req bcrypt db]
      by (auto simp: passes_checks_def)
    with Inr show ?thesis by auto
  next
    case True
    consider "reg_Role req = '''' \<or> reg_Role req = RoleUser" | "reg_Role req = RoleAdmin"
      | "reg_Role req \<noteq> ''''" "reg_Role req \<noteq> RoleUser" "reg_Role req \<noteq> RoleAdmin"
      by blast
    then show ?thesis
    proof cases
      case 1
      from Register_create [OF True 1, of bcrypt db] Inr show ?thesis by auto
    next
      case 2
      from Register_admin [OF True 2, of bcrypt db] Inr show ?thesis by simp
    next
      case 3
      from Register_other_role [OF True 3, of bcrypt db] Inr show ?thesis by simp
    qed
  qed
qed

lemma Register_rows:
  "u \<in> set (fst (AuthHandler_Register bcrypt db bound)) \<Longrightarrow> u \<in> set db \<or> Role u = RoleUser"
  using Register_outcomes [of bcrypt db bound] by auto

text \<open>
  Claim C9, as amended. Every row that \<open>Register\<close> adds to the users table has role
  \<open>user\<close>, whatever the request. A request whose body was not bound, whose two
  passwords differ, or whose username, email or full name is empty after
  \<open>strings.TrimSpace\<close> is answered 400 and leaves the table as it was, whatever its
  role. For every other request: with an empty role or role \<open>user\<close> the handler either
  appends one user of role \<open>user\<close> and answers 201, or leaves the table as it was and
  answers 409 or 500; with role \<open>admin\<close> it answers 403 and leaves the table as it was;
  with any other role it answers 400 and leaves the table as it was.
\<close>

theorem Register_role:
  "(\<forall>u \<in> set (fst (AuthHandler_Register bcrypt db bound)). u \<in> set db \<or> Role u = RoleUser)
   \<and> (\<forall>e. bound = Inl e \<longrightarrow>
         AuthHandler_Register bcrypt db bound = (db, (StatusBadRequest, e)))
   \<and> (\<forall>req. bound = Inr req \<and> reg_Password req \<noteq> reg_ConfirmPassword req \<longrightarrow>
         AuthHandler_Register bcrypt db bound =
           (db, (StatusBadRequest, ''passwords do not match'')))
   \<and> (\<forall>req. bound = Inr req \<and> reg_Password req = reg_ConfirmPassword req
          \<and> (TrimSpace (reg_Username req) = '''' \<or> TrimSpace (reg_Email req) = ''''
               \<or> TrimSpace (reg_FullName req) = '''') \<longrightarrow>
         AuthHandler_Register bcrypt db bound =
           (db, (StatusBadRequest, ''username, email and full name cannot be empty'')))
   \<and> (\<forall>req. bound = Inr req \<and> passes_checks req \<longrightarrow>
         (reg_Role req = '''' \<or> reg_Role req = RoleUser \<longrightarrow>
            (\<exists>u. Role u = RoleUser \<and>
                 AuthHandler_Register bcrypt db bound =
                   (db @ [u], (StatusCreated, ''user registered successfully'')))
          \<or> (\<exists>status msg. (status = StatusConflict \<or> status = StatusInternalServerError) \<and>
                 AuthHandler_Register bcrypt db bound = (db, (status, msg))))
       \<and> (reg_Role req = RoleAdmin \<longrightarrow>
            AuthHandler_Register bcrypt db bound =
              (db, (StatusForbidden, ''unauthorized to create admin account'')))
       \<and> (reg_Role req \<noteq> '''' \<and> reg_Role req \<noteq> RoleUser \<and> reg_Role req \<noteq> RoleAdmin \<longrightarrow>
            AuthHandler_Register bcrypt db bound = (db, (StatusBadRequest, ''invalid role''))))"
  using Register_rows [of _ bcrypt db bound] Register_unbound [of bcrypt db]
    Register_mismatch [of _ bcrypt db] Register_empty_field [of _ bcrypt db]
    Register_create [of _ bcrypt db] Register_admin [of _ bcrypt db]
    Register_other_role [of _ bcrypt db]
  by blast

lemma UpdateUserRole_bad_id:
  "ParseUint32 id_param = None \<Longrightarrow>
   AuthHandler_UpdateUserRole db c id_param body = (db, (StatusBadRequest, ''invalid user ID''))"
  by (simp add: AuthHandler_UpdateUserRole_def)

lemma DeleteUser_bad_id:
  "ParseUint32 id_param = None \<Longrightarrow>
   AuthHandler_DeleteUser db now c id_param = (db, (StatusBadRequest, ''invalid user ID''))"
  by (simp add: AuthHandler_DeleteUser_def)

text \<open>
  Claim C1, as amended. For a request to the role-update or the user-delete endpoint
  whose path id \<open>strconv.ParseUint(id, 10, 32)\<close> accepts, the handler reads the acting
  user from the store as it is when the request is handled; if the role read there is
  not \<open>admin\<close>, the answer is 403 and the store is left as it was, whatever role the
  token put into the request context; if the acting user cannot be read, the answer
  is 500 and the store is left as it was. A request whose path id \<open>ParseUint\<close> rejects
  (malformed, or out of the 32-bit range) is answered 400 and leaves the store as it
  was, whatever the acting user's stored role.
\<close>

theorem stale_admin_denied:
  "(ParseUint32 id_param = None \<longrightarrow>
      AuthHandler_UpdateUserRole db c id_param body =
        (db, (StatusBadRequest, ''invalid user ID''))
    \<and> AuthHandler_DeleteUser db now c id_param =
        (db, (StatusBadRequest, ''invalid user ID'')))
   \<and> (\<forall>uid e. ParseUint32 id_param = Some uid
          \<and> AuthService_GetCurrentUser db (ctx_userID c) = Inl e \<longrightarrow>
      AuthHandler_UpdateUserRole db c id_param body =
        (db, (StatusInternalServerError, err_Error e))
    \<and> AuthHandler_DeleteUser db now c id_param =
        (db, (StatusInternalServerError, err_Error e)))
   \<and> (\<forall>uid currentUser. ParseUint32 id_param = Some uid
          \<and> AuthService_GetCurrentUser db (ctx_userID c) = Inr currentUser
          \<and> Role currentUser \<noteq> RoleAdmin \<longrightarrow>
      AuthHandler_UpdateUserRole db c id_param body =
        (db, (StatusForbidden, ''only admin can update user roles''))
    \<and> AuthHandler_DeleteUser db now c id_param =
        (db, (StatusForbidden, ''only admin can delete users'')))"
  by (auto simp: AuthHandler_UpdateUserRole_def AuthHandler_DeleteUser_def)











lemma white_space_encodings_eval:
  "white_space_encodings =
     [[0x09], [0x0A], [0x0B], [0x0C], [0x0D], [0x20], [0xC2, 0x85], [0xC2, 0xA0],
      [0xE1, 0x9A, 0x80],
      [0xE2, 0x80, 0x80], [0xE2, 0x80, 0x81], [0xE2, 0x80, 0x82], [0xE2, 0x80, 0x83],
      [0xE2, 0x80, 0x84], [0xE2, 0x80, 0x85], [0xE2, 0x80, 0x86], [0xE2, 0x80, 0x87],
      [0xE2, 0x80, 0x88], [0xE2, 0x80, 0x89], [0xE2, 0x80, 0x8A],
      [0xE2, 0x80, 0xA8], [0xE2, 0x80, 0xA9], [0xE2, 0x80, 0xAF], [0xE2, 0x81, 0x9F],
      [0xE3, 0x80, 0x80]]"
  by (simp add: white_space_encodings_def white_space_runes_def EncodeRune_def)

lemmas TrimSpace_eval = TrimSpace_def TrimLeft_def TrimRight_def white_space_encodings_eval

lemma sample_fields_trimmed:
  "TrimSpace ''  johndoe '' = ''johndoe''"
  "TrimSpace ''johndoe'' = ''johndoe''"
  "TrimSpace ''john@example.com'' = ''john@example.com''"
  "TrimSpace ''John Doe'' = ''John Doe''"
  "TrimSpace [CHR 0xC2, CHR 0xA0] = ''''"
  by (simp_all add: TrimSpace_eval)

lemmas store_eval =
  UserRepository_GetByID_def visible_def UserRepository_Create_def BeforeSave_def next_ID_def
  UserRepository_UpdateFields_def UserRepository_Delete_def AuthService_GetCurrentUser_def
  AuthService_UpdateUserRole_def AuthService_DeleteUser_def ParseUint32_def digit_of_def
  AuthHandler_UpdateUserRole_def AuthHandler_DeleteUser_def AuthHandler_Register_def
  passes_checks_def sample_fields_trimmed RoleAdmin_def RoleUser_def roles_closed_def
  sample_bcrypt_def seeded_users_def moderated_users_def stale_admin_ctx_def admin_ctx_def
  sample_registration_def nbsp_registration_def

theorem stale_admin_denied_witness:
  "ParseUint32 ''1'' = Some 1
   \<and> AuthService_GetCurrentUser seeded_users (ctx_userID stale_admin_ctx) = Inr (seeded_users ! 1)
   \<and> Role (seeded_users ! 1) \<noteq> RoleAdmin
   \<and> ctx_role stale_admin_ctx = ''admin''
   \<and> AuthHandler_UpdateUserRole seeded_users stale_admin_ctx ''1'' (RoleBody ''user'') =
        (seeded_users, (403, ''only admin can update user roles''))
   \<and> AuthHandler_DeleteUser seeded_users 0 stale_admin_ctx ''1'' =
        (seeded_users, (403, ''only admin can delete users''))
   \<and> ParseUint32 ''-1'' = None
   \<and> AuthHandler_DeleteUser seeded_users 0 stale_admin_ctx ''-1'' =
        (seeded_users, (400, ''invalid user ID''))"
  using stale_admin_denied [of "''1''" seeded_users stale_admin_ctx "RoleBody ''user''" 0]
    stale_admin_denied [of "''-1''" seeded_users stale_admin_ctx "RoleBody ''user''" 0]
  by (simp add: store_eval http_status_defs)

text \<open>
  Claim C1 as stated fails on a path id that \<open>ParseUint\<close> rejects: the handler answers
  400 before it reads the acting user, although the acting user's stored role is
  \<open>user\<close>.
\<close>

theorem stale_admin_malformed_id_counterexample:
  "AuthService_GetCurrentUser seeded_users (ctx_userID stale_admin_ctx) = Inr (seeded_users ! 1)
   \<and> Role (seeded_users ! 1) = RoleUser
   \<and> AuthHandler_UpdateUserRole seeded_users stale_admin_ctx ''abc'' (RoleBody ''admin'') =
        (seeded_users, (400, ''invalid user ID''))
   \<and> AuthHandler_DeleteUser seeded_users 0 stale_admin_ctx ''4294967296'' =
        (seeded_users, (400, ''invalid user ID''))"
  by (simp add: store_eval http_status_defs)

theorem Register_role_witness:
  "passes_checks (sample_registration ''password123'' '''')
   \<and> AuthHandler_Register sample_bcrypt seeded_users
        (Inr (sample_registration ''password123'' '''')) =
     (seeded_users @
        [\<lparr>ID = 3, Username = ''johndoe'', Email = ''john@example.com'', FullName = ''John Doe'',
          Password = ''$2a$10$password123'', Role = ''user'', DeletedAt = None\<rparr>],
      (201, ''user registered successfully''))
   \<and> AuthHandler_Register sample_bcrypt seeded_users
        (Inr (sample_registration ''password123'' ''admin'')) =
     (seeded_users, (403, ''unauthorized to create admin account''))
   \<and> AuthHandler_Register sample_bcrypt seeded_users
        (Inr (sample_registration ''password123'' ''root'')) =
     (seeded_users, (400, ''invalid role''))
   \<and> AuthHandler_Register sample_bcrypt seeded_users (Inr nbsp_registration) =
     (seeded_users, (400, ''username, email and full name cannot be empty''))"
  using Register_role [of sample_bcrypt seeded_users "Inr (sample_registration ''password123'' '''')"]
    Register_role [of sample_bcrypt seeded_users "Inr (sample_registration ''password123'' ''admin'')"]
    Register_role [of sample_bcrypt seeded_users "Inr (sample_registration ''password123'' ''root'')"]
    Register_role [of sample_bcrypt seeded_users "Inr nbsp_registration"]
  by (simp add: store_eval http_status_defs)

text \<open>
  Claim C9 as stated fails on a request for role \<open>admin\<close> whose passwords differ: the
  password check comes first and answers 400.
\<close>

theorem Register_admin_mismatch_counterexample:
  "reg_Role (sample_registration ''password124'' ''admin'') = ''admin''
   \<and> AuthHandler_Register sample_bcrypt seeded_users
        (Inr (sample_registration ''password124'' ''admin'')) =
     (seeded_users, (400, ''passwords do not match''))"
  by (simp add: store_eval http_status_defs)



section \<open>Properties of the token service and of \<open>AuthMiddleware\<close>\<close>

lemma length_Split: "length (Split s sep) = Suc (length (filter (\<lambda>c. c = sep) s))"
  by (induction s) auto

lemma Split_no_sep: "sep \<notin> set s \<Longrightarrow> Split s sep = [s]"
  by (induction s) auto

lemma Split_Bearer:
  "CHR '' '' \<notin> set tok \<Longrightarrow> Split (''Bearer '' @ tok) CHR '' '' = [''Bearer'', tok]"
  by (simp add: Split_no_sep)

lemma Split_Bearer_spaced:
  assumes "CHR '' '' \<in> set tok"
  shows "length (Split (''Bearer '' @ tok) CHR '' '') \<noteq> 2"
proof -
  from assms have "filter (\<lambda>c. c = CHR '' '') tok \<noteq> []"
    by (simp add: filter_empty_conv)
  then have "0 < length (filter (\<lambda>c. c = CHR '' '') tok)" by simp
  then show ?thesis by (simp add: length_Split)
qed

lemma trunc_le_ceiling: "trunc q \<le> \<lceil>q\<rceil>"
  by (simp add: trunc_def floor_le_ceiling)

lemma Second_pos: "0 < Second"
  by (simp add: Second_def)

lemma int64_le: "- (2 ^ 63) \<le> x \<Longrightarrow> int64 x \<le> x"
proof -
  assume "- (2 ^ 63) \<le> x"
  then have "0 \<le> x + 2 ^ 63" by simp
  then have "(x + 2 ^ 63) mod 2 ^ 64 \<le> x + 2 ^ 63"
    by (rule zmod_le_nonneg_dividend)
  then show ?thesis by (simp add: int64_def)
qed

lemma fpart_bounds: "- 1 < f - of_int (trunc f) \<and> f - of_int (trunc f) < 1"
  unfolding trunc_def by (auto; linarith)

lemma nsec_bounds:
  "- Second < trunc ((f - of_int (trunc f)) * of_int Second)
   \<and> trunc ((f - of_int (trunc f)) * of_int Second) < Second"
proof -
  define q where "q = (f - of_int (trunc f)) * of_int Second"
  have S: "(0::rat) < of_int Second" using Second_pos by simp
  have lo: "- 1 < f - of_int (trunc f)" and hi: "f - of_int (trunc f) < 1"
    using fpart_bounds [of f] by simp_all
  have "(- 1) * of_int Second < q" unfolding q_def by (rule mult_strict_right_mono [OF lo S])
  moreover have "q < 1 * of_int Second" unfolding q_def by (rule mult_strict_right_mono [OF hi S])
  ultimately have "- of_int Second < q" "q < of_int Second" by simp_all
  then have "- Second < trunc q \<and> trunc q < Second"
  proof (cases "0 \<le> q")
    case True
    then have "0 \<le> \<lfloor>q\<rfloor>" by simp
    then have "- Second < \<lfloor>q\<rfloor>" using Second_pos by linarith
    moreover have "\<lfloor>q\<rfloor> < Second" using \<open>q < of_int Second\<close> by (simp add: floor_less_iff)
    ultimately show ?thesis using True by (simp add: trunc_def)
  next
    case False
    then have "\<lceil>q\<rceil> \<le> 0" by (simp add: ceiling_le_iff)
    then have "\<lceil>q\<rceil> < Second" using Second_pos by linarith
    moreover have "- Second < \<lceil>q\<rceil>"
      using \<open>- of_int Second < q\<close> by (simp add: less_ceiling_iff)
    ultimately show ?thesis using False by (simp add: trunc_def)
  qed
  then show ?thesis unfolding q_def by simp
qed

lemma div_Second_bounds:
  assumes "- Second < n" "n < Second"
  shows "- 1 \<le> n div Second \<and> n div Second \<le> 0 \<and> (n div Second) * Second \<le> n"
proof -
  have "(- Second) div Second \<le> n div Second"
    using assms Second_pos by (intro zdiv_mono1) simp_all
  moreover have "(- Second) div Second = - 1" by (simp add: Second_def)
  moreover have "n div Second \<le> (Second - 1) div Second"
    using assms Second_pos by (intro zdiv_mono1) simp_all
  moreover have "(Second - 1) div Second = 0" by (simp add: Second_def)
  moreover have "(n div Second) * Second \<le> n"
  proof -
    have "n div Second * Second + n mod Second = n" by simp
    moreover have "0 \<le> n mod Second" using Second_pos by simp
    ultimately show ?thesis by linarith
  qed
  ultimately show ?thesis by simp
qed

lemma exact_instant_past:
  assumes "f * of_int Second < of_int now"
  shows "trunc f * Second + trunc ((f - of_int (trunc f)) * of_int Second) \<le> now"
proof -
  define ipart where "ipart = trunc f"
  have "ipart * Second + trunc ((f - of_int ipart) * of_int Second)
        \<le> ipart * Second + \<lceil>(f - of_int ipart) * of_int Second\<rceil>"
    using trunc_le_ceiling by simp
  also have "\<dots> = \<lceil>(f - of_int ipart) * of_int Second + of_int (ipart * Second)\<rceil>"
    using ceiling_add_of_int [of "(f - of_int ipart) * of_int Second" "ipart * Second"]
    by linarith
  also have "(f - of_int ipart) * of_int Second + of_int (ipart * Second) = f * of_int Second"
    by (simp add: algebra_simps)
  also have "\<lceil>f * of_int Second\<rceil> \<le> now"
    using assms by (simp add: ceiling_le_iff)
  finally show ?thesis by (simp add: ipart_def)
qed

lemma newNumericDate_past:
  assumes past: "f * of_int Second < of_int now" and epoch: "0 \<le> now"
  shows "newNumericDateFromSeconds f \<le> now"
proof -
  define ipart where "ipart = trunc f"
  define nsec where "nsec = trunc ((f - of_int ipart) * of_int Second)"
  define sec where "sec = float64_to_int64 ipart"
  define x where "x = sec + nsec div Second + unixToInternal"
  have res: "newNumericDateFromSeconds f = (int64 x - unixToInternal) * Second"
    by (simp add: newNumericDateFromSeconds_def Let_def ipart_def nsec_def sec_def x_def)
  have nb: "- Second < nsec" "nsec < Second"
    using nsec_bounds [of f] by (simp_all add: nsec_def ipart_def)
  from div_Second_bounds [OF nb]
  have n: "- 1 \<le> nsec div Second" "nsec div Second \<le> 0" "(nsec div Second) * Second \<le> nsec"
    by simp_all
  have sec_lo: "- (2 ^ 63) \<le> sec"
    by (simp add: sec_def float64_to_int64_def)
  have "- (2 ^ 63) \<le> x"
    using sec_lo n(1) by (simp add: x_def unixToInternal_def)
  then have "int64 x \<le> x" by (rule int64_le)
  then have "int64 x - unixToInternal \<le> sec + nsec div Second"
    by (simp add: x_def)
  then have le: "(int64 x - unixToInternal) * Second \<le> (sec + nsec div Second) * Second"
    using Second_pos by (simp add: mult_right_mono)
  have "(sec + nsec div Second) * Second \<le> now"
  proof (cases "- (2 ^ 63) \<le> ipart \<and> ipart < 2 ^ 63")
    case True
    then have "sec = ipart" by (simp add: sec_def float64_to_int64_def)
    then have "(sec + nsec div Second) * Second = ipart * Second + (nsec div Second) * Second"
      by (simp add: algebra_simps)
    also have "\<dots> \<le> ipart * Second + nsec" using n(3) by simp
    also have "\<dots> \<le> now"
      using exact_instant_past [OF past] by (simp add: ipart_def nsec_def)
    finally show ?thesis .
  next
    case False
    then have "sec = - (2 ^ 63)" unfolding sec_def float64_to_int64_def by auto
    then have "sec + nsec div Second \<le> 0" using n(2) by simp
    then have "(sec + nsec div Second) * Second \<le> 0"
      using Second_pos by (simp add: mult_le_0_iff)
    with epoch show ?thesis by linarith
  qed
  with le res show ?thesis by linarith
qed

lemma verifyExpiresAt_past:
  assumes "claims ''exp'' = Some (JNumber e)" "e \<noteq> 0"
    and "e * of_int Second < of_int now" "0 \<le> now"
  shows "verifyExpiresAt claims now = Some ErrTokenExpired"
  using assms newNumericDate_past [OF assms(3,4)]
  by (simp add: verifyExpiresAt_def parseNumericDate_def)

lemma verifyExpiresAt_zero:
  "claims ''exp'' = Some (JNumber 0) \<Longrightarrow> verifyExpiresAt claims now = None"
  by (simp add: verifyExpiresAt_def parseNumericDate_def)

lemma jwt_Parse_expired:
  assumes "ParseUnverified L tokenString = Some token"
    and "verifyExpiresAt (Claims token) now = Some err"
  shows "\<exists>e. jwt_Parse L keyFunc now tokenString = Inl e"
  using assms by (auto simp: jwt_Parse_def Validate_def split: sum.splits)

lemma AuthMiddleware_Bearer:
  assumes "CHR '' '' \<notin> set tokenString"
  shows "AuthMiddleware L env now (''Bearer '' @ tokenString) =
     (case LoadConfig env of
        Inl e \<Rightarrow> Abort StatusInternalServerError ''failed to load configuration''
      | Inr cfg \<Rightarrow>
         (case jwt_Parse L (HMAC_keyFunc ''signature is invalid'' (JWTSecret cfg))
                 now tokenString of
            Inl e \<Rightarrow> Abort StatusUnauthorized ''invalid or expired token''
          | Inr token \<Rightarrow>
             (case claims_identity (Claims token) of
                None \<Rightarrow> Abort StatusUnauthorized ''missing or invalid claim fields''
              | Some ident \<Rightarrow> Next ident)))"
proof -
  have "Split (''Bearer '' @ tokenString) CHR '' '' = [''Bearer'', tokenString]"
    using assms by (rule Split_Bearer)
  then show ?thesis
    by (simp add: AuthMiddleware_def Let_def)
qed

lemma AuthMiddleware_spaced:
  assumes "CHR '' '' \<in> set tokenString"
  shows "AuthMiddleware L env now (''Bearer '' @ tokenString) =
           Abort StatusUnauthorized ''invalid authorization header format''"
  using Split_Bearer_spaced [OF assms]
  by (simp add: AuthMiddleware_def Let_def)

lemma LoadConfig_JWTSecret:
  "LoadConfig env = Inr cfg \<Longrightarrow>
   JWTSecret cfg = getEnv env ''JWT_SECRET'' ''01964c7b_9461_735b_82af_c02f626b7066''"
  by (auto simp: LoadConfig_def split: option.splits)

text \<open>
  Claim C2, as amended. Let a token string decode to claims whose \<open>exp\<close> is a number
  strictly before the current instant, the clock standing at or after the Unix epoch.
  If that number is not zero, \<open>jwt.Parse\<close> fails whatever the key function returns
  and whatever the signature is, and \<open>AuthMiddleware\<close>, when its configuration loads,
  answers the request that presents the token after \<open>Bearer\<close> with 401: with the
  message \<open>invalid or expired token\<close>, or \<open>invalid authorization header format\<close>
  when the token string holds a space. If the number is zero, the library treats the
  claim as absent and the expiry check passes.
\<close>

theorem expired_token_rejected:
  assumes "ParseUnverified L tokenString = Some token"
    and "Claims token ''exp'' = Some (JNumber e)"
    and "e * of_int Second < of_int now" and "0 \<le> now"
  shows "(e \<noteq> 0 \<longrightarrow>
            (\<forall>keyFunc. \<exists>err. jwt_Parse L keyFunc now tokenString = Inl err)
          \<and> (\<forall>cfg. LoadConfig env = Inr cfg \<longrightarrow>
                AuthMiddleware L env now (''Bearer '' @ tokenString) =
                  Abort StatusUnauthorized
                    (if CHR '' '' \<in> set tokenString
                     then ''invalid authorization header format''
                     else ''invalid or expired token'')))
       \<and> (e = 0 \<longrightarrow> verifyExpiresAt (Claims token) now = None)"
proof -
  have zero: "verifyExpiresAt (Claims token) now = None" if "e = 0"
    using assms(2) that by (simp add: verifyExpiresAt_zero)
  have parse: "\<exists>err. jwt_Parse L keyFunc now tokenString = Inl err" if "e \<noteq> 0" for keyFunc
    using jwt_Parse_expired [OF assms(1)
        verifyExpiresAt_past [of "Claims token" e now, OF assms(2) that assms(3,4)]] .
  have mw: "AuthMiddleware L env now (''Bearer '' @ tokenString) =
                  Abort StatusUnauthorized
                    (if CHR '' '' \<in> set tokenString
                     then ''invalid authorization header format''
                     else ''invalid or expired token'')"
    if "e \<noteq> 0" "LoadConfig env = Inr cfg" for cfg
  proof (cases "CHR '' '' \<in> set tokenString")
    case True
    then show ?thesis using AuthMiddleware_spaced [of tokenString L env now] by simp
  next
    case False
    from parse [OF that(1)] obtain err where
      "jwt_Parse L (HMAC_keyFunc ''signature is invalid'' (JWTSecret cfg)) now tokenString = Inl err"
      by blast
    with False that(2) show ?thesis
      using AuthMiddleware_Bearer [of tokenString L env now] by simp
  qed
  show ?thesis using zero parse mw by blast
qed

lemma jwt_Parse_fails_iff:
  "(\<exists>err. jwt_Parse L (HMAC_keyFunc msg secret) now tokenString = Inl err) \<longleftrightarrow>
   (ParseUnverified L tokenString = None
    \<or> (\<exists>token. ParseUnverified L tokenString = Some token
          \<and> (\<not> is_HMAC (Method token)
               \<or> Sign L (Method token) (signing_input token) secret \<noteq> Signature token
               \<or> verifyExpiresAt (Claims token) now \<noteq> None
               \<or> verifyNotBefore (Claims token) now \<noteq> None)))"
  by (auto simp: jwt_Parse_def HMAC_keyFunc_def Validate_def split: option.splits)

lemma claims_identity_None_iff:
  "claims_identity claims = None \<longleftrightarrow>
   \<not> (\<exists>userIDFloat email role. claims ''user_id'' = Some (JNumber userIDFloat)
          \<and> claims ''email'' = Some (JString email) \<and> claims ''role'' = Some (JString role))"
  by (auto simp: claims_identity_def split: option.splits json.splits)

text \<open>
  Claim C6, as amended. Let the configuration load and the header be \<open>Bearer\<close>, one
  space and a token string without a space. If \<open>jwt.Parse\<close> fails, the answer is 401
  with the message \<open>invalid or expired token\<close>; it fails exactly when the string does
  not decode, the method is not an HMAC, the signature does not verify under the
  configured secret, or the check of \<open>exp\<close> or of \<open>nbf\<close> fails (expired, not yet
  valid, or not a number). If it succeeds and the claims do not hold a number
  \<open>user_id\<close>, a string \<open>email\<close> and a string \<open>role\<close>, the answer is 401 with the
  different message \<open>missing or invalid claim fields\<close>. Otherwise the request is
  handed on with the identity of the claims.
\<close>

theorem verification_failure_messages:
  assumes "LoadConfig env = Inr cfg" and "CHR '' '' \<notin> set tokenString"
  shows "(\<forall>err. jwt_Parse L (HMAC_keyFunc ''signature is invalid'' (JWTSecret cfg)) now tokenString
                  = Inl err \<longrightarrow>
            AuthMiddleware L env now (''Bearer '' @ tokenString) =
              Abort StatusUnauthorized ''invalid or expired token'')
       \<and> ((\<exists>err. jwt_Parse L (HMAC_keyFunc ''signature is invalid'' (JWTSecret cfg)) now
                   tokenString = Inl err) \<longleftrightarrow>
            (ParseUnverified L tokenString = None
             \<or> (\<exists>token. ParseUnverified L tokenString = Some token
                   \<and> (\<not> is_HMAC (Method token)
                        \<or> Sign L (Method token) (signing_input token) (JWTSecret cfg)
                             \<noteq> Signature token
                        \<or> verifyExpiresAt (Claims token) now \<noteq> None
                        \<or> verifyNotBefore (Claims token) now \<noteq> None))))
       \<and> (\<forall>token. jwt_Parse L (HMAC_keyFunc ''signature is invalid'' (JWTSecret cfg)) now tokenString
                  = Inr token
                \<and> \<not> (\<exists>userIDFloat email role.
                        Claims token ''user_id'' = Some (JNumber userIDFloat)
                        \<and> Claims token ''email'' = Some (JString email)
                        \<and> Claims token ''role'' = Some (JString role)) \<longrightarrow>
            AuthMiddleware L env now (''Bearer '' @ tokenString) =
              Abort StatusUnauthorized ''missing or invalid claim fields'')
       \<and> (\<forall>token ident. jwt_Parse L (HMAC_keyFunc ''signature is invalid'' (JWTSecret cfg)) now tokenString
                  = Inr token \<and> claims_identity (Claims token) = Some ident \<longrightarrow>
            AuthMiddleware L env now (''Bearer '' @ tokenString) = Next ident)"
proof -
  have mw: "AuthMiddleware L env now (''Bearer '' @ tokenString) =
     (case jwt_Parse L (HMAC_keyFunc ''signature is invalid'' (JWTSecret cfg)) now tokenString of
        Inl e \<Rightarrow> Abort StatusUnauthorized ''invalid or expired token''
      | Inr token \<Rightarrow>
         (case claims_identity (Claims token) of
            None \<Rightarrow> Abort StatusUnauthorized ''missing or invalid claim fields''
          | Some ident \<Rightarrow> Next ident))"
    using assms AuthMiddleware_Bearer [of tokenString L env now] by simp
  have a: "AuthMiddleware L env now (''Bearer '' @ tokenString) =
              Abort StatusUnauthorized ''invalid or expired token''"
    if "jwt_Parse L (HMAC_keyFunc ''signature is invalid'' (JWTSecret cfg)) now tokenString = Inl err"
    for err
    unfolding mw using that by simp
  have b: "AuthMiddleware L env now (''Bearer '' @ tokenString) =
              Abort StatusUnauthorized ''missing or invalid claim fields''"
    if "jwt_Parse L (HMAC_keyFunc ''signature is invalid'' (JWTSecret cfg)) now tokenString = Inr token"
      and "\<not> (\<exists>userIDFloat email role.
                        Claims token ''user_id'' = Some (JNumber userIDFloat)
                        \<and> Claims token ''email'' = Some (JString email)
                        \<and> Claims token ''role'' = Some (JString role))"
    for token
  proof -
    from that(2) have "claims_identity (Claims token) = None"
      using claims_identity_None_iff [of "Claims token"] by blast
    with that(1) show ?thesis unfolding mw by simp
  qed
  have c: "AuthMiddleware L env now (''Bearer '' @ tokenString) = Next ident"
    if "jwt_Parse L (HMAC_keyFunc ''signature is invalid'' (JWTSecret cfg)) now tokenString = Inr token"
      and "claims_identity (Claims token) = Some ident"
    for token ident
    unfolding mw using that by simp
  show ?thesis
    using a b c jwt_Parse_fails_iff [of L "''signature is invalid''" "JWTSecret cfg" now tokenString]
    by blast
qed

lemma jwt_Parse_other_key:
  assumes "key_separating L" and "decodes_own L m claims key" and "key' \<noteq> key"
  shows "jwt_Parse L (HMAC_keyFunc msg key') now (SignedString L m claims key) =
           (if is_HMAC m then Inl ErrTokenSignatureInvalid else Inl ErrTokenUnverifiable)"
proof -
  have "Sign L m (SigningString L m claims) key' \<noteq> Sign L m (SigningString L m claims) key"
    using assms(1,3) unfolding key_separating_def by blast
  then show ?thesis
    using assms(2) by (simp add: jwt_Parse_def decodes_own_def HMAC_keyFunc_def)
qed


text \<open>
  Claim C8 fails on the code. When \<open>JWT_SECRET\<close> is not set, \<open>generateAccessToken\<close>
  signs with \<open>your-secret-key\<close>, the fallback of the token service, and
  \<open>AuthMiddleware\<close> verifies with the fallback of \<open>config.LoadConfig\<close>, a different
  string. For a library that decodes the tokens it makes and whose signatures separate
  keys, the token of every user is rejected at every instant: the middleware never
  hands the request on, and answers 401 when the configuration loads and the token
  holds no space.
\<close>

theorem default_secret_token_rejected:
  assumes "key_separating L"
    and "decodes_own L HS256 (access_claims now user) ''your-secret-key''"
    and "env ''JWT_SECRET'' = None"
  shows "(\<exists>status msg. AuthMiddleware L env now' (''Bearer '' @ generateAccessToken L env now user) =
            Abort status msg)
       \<and> (\<forall>cfg. LoadConfig env = Inr cfg \<and> CHR '' '' \<notin> set (generateAccessToken L env now user) \<longrightarrow>
            AuthMiddleware L env now' (''Bearer '' @ generateAccessToken L env now user) =
              Abort StatusUnauthorized ''invalid or expired token'')"
proof -
  let ?tok = "generateAccessToken L env now user"
  have tok: "?tok = SignedString L HS256 (access_claims now user) ''your-secret-key''"
    using assms(3) by (simp add: generateAccessToken_def GetEnv_def getEnv_def os_Getenv_def)
  have rej: "AuthMiddleware L env now' (''Bearer '' @ ?tok) =
              Abort StatusUnauthorized ''invalid or expired token''"
    if cfg: "LoadConfig env = Inr cfg" and sp: "CHR '' '' \<notin> set ?tok" for cfg
  proof -
    have "JWTSecret cfg = ''01964c7b_9461_735b_82af_c02f626b7066''"
      using LoadConfig_JWTSecret [OF cfg] assms(3) by (simp add: getEnv_def os_Getenv_def)
    then have "JWTSecret cfg \<noteq> ''your-secret-key''" by simp
    from jwt_Parse_other_key [OF assms(1,2) this]
    have "jwt_Parse L (HMAC_keyFunc ''signature is invalid'' (JWTSecret cfg)) now' ?tok =
            Inl ErrTokenSignatureInvalid"
      by (simp add: tok)
    with cfg sp show ?thesis using AuthMiddleware_Bearer [of ?tok L env now'] by simp
  qed
  have "\<exists>status msg. AuthMiddleware L env now' (''Bearer '' @ ?tok) = Abort status msg"
  proof (cases "CHR '' '' \<in> set ?tok")
    case True
    then show ?thesis using AuthMiddleware_spaced [of ?tok L env now'] by simp
  next
    case False
    show ?thesis
    proof (cases "LoadConfig env")
      case (Inl e)
      with False show ?thesis using AuthMiddleware_Bearer [of ?tok L env now'] by simp
    next
      case (Inr cfg)
      from rej [OF Inr False] show ?thesis by blast
    qed
  qed
  with rej show ?thesis by blast
qed

lemma sample_lib_key_separating: "key_separating sample_lib"
  by (simp add: key_separating_def sample_lib_def sample_Sign_def)

lemmas token_eval =
  LoadConfig_def getEnv_def GetEnv_def os_Getenv_def Atoi_def digit_of_def
  jwt_Parse_def HMAC_keyFunc_def Validate_def verifyExpiresAt_def verifyNotBefore_def
  parseNumericDate_def newNumericDateFromSeconds_def trunc_def int64_def float64_to_int64_def
  unixToInternal_def Second_def Hour_def Unix_def claims_identity_def uint_of_float64_def
  SignedString_def generateAccessToken_def generateRefreshToken_def ValidateToken_def
  ValidateRefreshToken_def access_claims_def refresh_claims_def decodes_own_def
  sample_lib_def sample_Sign_def sample_SigningString_def sample_ParseUnverified_def
  sample_access_claims_def sample_refresh_claims_def sample_epoch_claims_def
  sample_norole_claims_def default_env_def default_config_def login_time_def
  request_time_def late_time_def config_signed_token_def epoch_token_def norole_token_def
  seeded_users_def RoleUser_def RoleAdmin_def

lemma sample_decodes_access:
  "decodes_own sample_lib HS256 (access_claims login_time (seeded_users ! 1)) ''your-secret-key''"
  by (simp add: token_eval)


theorem expired_token_rejected_witness:
  "ParseUnverified sample_lib config_signed_token =
     Some \<lparr>Method = HS256, Claims = sample_access_claims, signing_input = ''hdr.access'',
           Signature = ''01964c7b_9461_735b_82af_c02f626b7066/hdr.access''\<rparr>
   \<and> sample_access_claims ''exp'' = Some (JNumber 1700086400)
   \<and> (1700086400 :: rat) * of_int Second < of_int late_time
   \<and> 0 \<le> late_time
   \<and> LoadConfig default_env = Inr default_config
   \<and> AuthMiddleware sample_lib default_env late_time (''Bearer '' @ config_signed_token) =
        Abort 401 ''invalid or expired token''
   \<and> AuthMiddleware sample_lib default_env request_time (''Bearer '' @ config_signed_token) =
        Next \<lparr>ctx_userID = 2, ctx_email = ''user@soa.com'', ctx_role = ''user''\<rparr>"
  using expired_token_rejected [of sample_lib config_signed_token
      "\<lparr>Method = HS256, Claims = sample_access_claims, signing_input = ''hdr.access'',
        Signature = ''01964c7b_9461_735b_82af_c02f626b7066/hdr.access''\<rparr>"
      1700086400 late_time default_env]
    AuthMiddleware_Bearer [of config_signed_token sample_lib default_env request_time]
  by (simp add: token_eval http_status_defs)

text \<open>
  Claim C2 as stated fails on a token whose \<open>exp\<close> is 0, the first second of 1970:
  \<open>MapClaims.parseNumericDate\<close> returns no date for the number zero, the expiry check
  passes, and the token, signed with the configured secret, is accepted.
\<close>

theorem epoch_expiry_counterexample:
  "ParseUnverified sample_lib epoch_token =
     Some \<lparr>Method = HS256, Claims = sample_epoch_claims, signing_input = ''hdr.epoch'',
           Signature = ''01964c7b_9461_735b_82af_c02f626b7066/hdr.epoch''\<rparr>
   \<and> sample_epoch_claims ''exp'' = Some (JNumber 0)
   \<and> (0 :: rat) * of_int Second < of_int request_time
   \<and> AuthMiddleware sample_lib default_env request_time (''Bearer '' @ epoch_token) =
        Next \<lparr>ctx_userID = 2, ctx_email = ''user@soa.com'', ctx_role = ''user''\<rparr>"
  using AuthMiddleware_Bearer [of epoch_token sample_lib default_env request_time]
  by (simp add: token_eval http_status_defs)

theorem verification_failure_messages_witness:
  "LoadConfig default_env = Inr default_config
   \<and> CHR '' '' \<notin> set config_signed_token
   \<and> jwt_Parse sample_lib (HMAC_keyFunc ''signature is invalid'' (JWTSecret default_config))
        late_time config_signed_token = Inl ErrTokenExpired
   \<and> AuthMiddleware sample_lib default_env late_time (''Bearer '' @ config_signed_token) =
        Abort 401 ''invalid or expired token''
   \<and> jwt_Parse sample_lib (HMAC_keyFunc ''signature is invalid'' (JWTSecret default_config))
        request_time ''hdr.access.your-secret-key/hdr.access'' = Inl ErrTokenSignatureInvalid
   \<and> AuthMiddleware sample_lib default_env request_time
        (''Bearer '' @ ''hdr.access.your-secret-key/hdr.access'') =
        Abort 401 ''invalid or expired token''"
  using verification_failure_messages [of default_env default_config config_signed_token
      sample_lib late_time]
    verification_failure_messages [of default_env default_config
      "''hdr.access.your-secret-key/hdr.access''" sample_lib request_time]
  by (simp add: token_eval http_status_defs)

text \<open>
  Claim C6 as stated fails on a token that is signed with the configured secret, has
  not expired and carries no \<open>role\<close>: the answer is 401 with the message
  \<open>missing or invalid claim fields\<close>, which tells the client that the claims check
  failed and not the signature or the expiry.
\<close>

theorem missing_role_message_counterexample:
  "jwt_Parse sample_lib (HMAC_keyFunc ''signature is invalid'' (JWTSecret default_config))
     request_time norole_token =
     Inr \<lparr>Method = HS256, Claims = sample_norole_claims, signing_input = ''hdr.norole'',
          Signature = ''01964c7b_9461_735b_82af_c02f626b7066/hdr.norole''\<rparr>
   \<and> sample_norole_claims ''role'' = None
   \<and> AuthMiddleware sample_lib default_env request_time (''Bearer '' @ norole_token) =
        Abort 401 ''missing or invalid claim fields''"
  using AuthMiddleware_Bearer [of norole_token sample_lib default_env request_time]
  by (simp add: token_eval http_status_defs)


theorem default_secret_token_rejected_witness:
  "default_env ''JWT_SECRET'' = None
   \<and> LoadConfig default_env = Inr default_config
   \<and> generateAccessToken sample_lib default_env login_time (seeded_users ! 1) =
        ''hdr.access.your-secret-key/hdr.access''
   \<and> AuthMiddleware sample_lib default_env request_time
        (''Bearer '' @ generateAccessToken sample_lib default_env login_time (seeded_users ! 1)) =
        Abort 401 ''invalid or expired token''
   \<and> ValidateToken sample_lib default_env request_time
        (generateAccessToken sample_lib default_env login_time (seeded_users ! 1)) =
        Inr \<lparr>Method = HS256, Claims = sample_access_claims, signing_input = ''hdr.access'',
             Signature = ''your-secret-key/hdr.access''\<rparr>"
  using default_secret_token_rejected [OF sample_lib_key_separating, of login_time
      "seeded_users ! 1" default_env request_time]
    sample_decodes_access
    AuthMiddleware_Bearer [of "''hdr.access.your-secret-key/hdr.access''" sample_lib
      default_env request_time]
  by (simp add: token_eval http_status_defs)

end
